theory Spec2Isabelle
  imports Main "HOL-Library.Char_ord" "HOL-Library.List_Lexorder" "HOL-Library.AList"
begin

section \<open>Go runtime: panics and slicing\<close>

text \<open>
  A Go function either returns or panics. A panic is the value \<open>Inl p\<close> of the
  result. \<open>RuntimeError\<close> is a panic whose value implements \<open>error\<close>, as every
  run-time error does (nil dereference, index or slice out of range);
  \<open>PanicValue\<close> is a panic with any other value.
\<close>

datatype panic = RuntimeError string | PanicValue string

type_synonym bytes = string

text \<open>\<open>s[:hi]\<close> and \<open>s[lo:]\<close> on a Go string: out of range is a run-time panic.\<close>

definition slice_to :: "string \<Rightarrow> int \<Rightarrow> panic + string" where
  "slice_to s hi =
     (if 0 \<le> hi \<and> hi \<le> int (length s) then Inr (take (nat hi) s)
      else Inl (RuntimeError ''slice bounds out of range''))"

definition slice_from :: "string \<Rightarrow> int \<Rightarrow> panic + string" where
  "slice_from s lo =
     (if 0 \<le> lo \<and> lo \<le> int (length s) then Inr (drop (nat lo) s)
      else Inl (RuntimeError ''slice bounds out of range''))"

text \<open>\<open>strings.LastIndex(s, sep)\<close> for a one-byte separator: -1 when absent.\<close>

fun LastIndex :: "string \<Rightarrow> char \<Rightarrow> int" where
  "LastIndex [] c = - 1"
| "LastIndex (x # xs) c =
     (let r = LastIndex xs c
      in if 0 \<le> r then r + 1 else if x = c then 0 else - 1)"

section \<open>identifiers.go\<close>

datatype SchemeManagerIdentifier = NewSchemeManagerIdentifier string
datatype IssuerIdentifier = NewIssuerIdentifier string
datatype CredentialTypeIdentifier = NewCredentialTypeIdentifier string
datatype AttributeIdentifier = NewAttributeIdentifier string

text \<open>\<open>objectIdentifier.Parent\<close>: \<open>str[:strings.LastIndex(str, "/")]\<close>.\<close>

definition Parent :: "string \<Rightarrow> panic + string" where
  "Parent str = slice_to str (LastIndex str CHR ''/'')"

text \<open>\<open>objectIdentifier.Name\<close>: \<open>str[strings.LastIndex(str, "/")+1:]\<close>.\<close>

definition Name :: "string \<Rightarrow> panic + string" where
  "Name str = slice_from str (LastIndex str CHR ''/'' + 1)"

fun SchemeManagerIdentifier_String :: "SchemeManagerIdentifier \<Rightarrow> string" where
  "SchemeManagerIdentifier_String (NewSchemeManagerIdentifier s) = s"

fun IssuerIdentifier_String :: "IssuerIdentifier \<Rightarrow> string" where
  "IssuerIdentifier_String (NewIssuerIdentifier s) = s"

fun CredentialTypeIdentifier_String :: "CredentialTypeIdentifier \<Rightarrow> string" where
  "CredentialTypeIdentifier_String (NewCredentialTypeIdentifier s) = s"

fun IssuerIdentifier_SchemeManagerIdentifier ::
  "IssuerIdentifier \<Rightarrow> panic + SchemeManagerIdentifier" where
  "IssuerIdentifier_SchemeManagerIdentifier (NewIssuerIdentifier s) =
     map_sum id NewSchemeManagerIdentifier (Parent s)"

fun CredentialTypeIdentifier_IssuerIdentifier ::
  "CredentialTypeIdentifier \<Rightarrow> panic + IssuerIdentifier" where
  "CredentialTypeIdentifier_IssuerIdentifier (NewCredentialTypeIdentifier s) =
     map_sum id NewIssuerIdentifier (Parent s)"

fun AttributeIdentifier_CredentialTypeIdentifier ::
  "AttributeIdentifier \<Rightarrow> panic + CredentialTypeIdentifier" where
  "AttributeIdentifier_CredentialTypeIdentifier (NewAttributeIdentifier s) =
     map_sum id NewCredentialTypeIdentifier (Parent s)"

text \<open>The manager that a credential type belongs to: issuer first, then manager.\<close>

definition CredentialType_manager ::
  "CredentialTypeIdentifier \<Rightarrow> panic + SchemeManagerIdentifier" where
  "CredentialType_manager credid =
     (case CredentialTypeIdentifier_IssuerIdentifier credid of
        Inl p \<Rightarrow> Inl p
      | Inr issid \<Rightarrow> IssuerIdentifier_SchemeManagerIdentifier issid)"

section \<open>Errors and statuses\<close>

datatype SchemeManagerStatus =
    SchemeManagerStatusValid
  | SchemeManagerStatusUnprocessed
  | SchemeManagerStatusInvalidIndex
  | SchemeManagerStatusInvalidSignature
  | SchemeManagerStatusParsingError
  | SchemeManagerStatusContentParsingError

text \<open>
  Error values. \<open>Error msg\<close> is an error this package makes with \<open>errors.New\<close>,
  \<open>errors.Errorf\<close> or \<open>fmt.Errorf\<close>; \<open>IndexLineError j\<close> is the error of
  \<open>FromString\<close> for line \<open>j\<close>; \<open>OSError\<close> comes from the file system,
  \<open>LibError\<close> from a decoding library (hex, xml, x509, gabi) or the transport;
  \<open>SchemeManagerError\<close> is the struct of that name.
\<close>

datatype error =
    Error string
  | IndexLineError nat
  | OSError string
  | LibError string
  | SchemeManagerError SchemeManagerIdentifier SchemeManagerStatus error

section \<open>The index: \<open>SchemeManagerIndex\<close>\<close>

text \<open>
  A Go map is an association list: \<open>map_of\<close> looks a key up, \<open>AList.update\<close> is
  \<open>m[k] = v\<close>, \<open>AList.delete\<close> is \<open>delete(m, k)\<close>, and the order of the list is
  the order in which a \<open>range\<close> loop happens to visit the entries.
\<close>

type_synonym ConfigurationFileHash = bytes

type_synonym SchemeManagerIndex = "(string \<times> ConfigurationFileHash) list"

text \<open>\<open>encoding/hex\<close>: two lower-case digits per byte; decoding takes both cases.\<close>

definition hexdigit :: "nat \<Rightarrow> char" where
  "hexdigit n = ''0123456789abcdef'' ! n"

definition fromHexChar :: "char \<Rightarrow> nat option" where
  "fromHexChar c =
     (let n = (of_char c :: nat) in
      if 48 \<le> n \<and> n \<le> 57 then Some (n - 48)
      else if 97 \<le> n \<and> n \<le> 102 then Some (n - 97 + 10)
      else if 65 \<le> n \<and> n \<le> 70 then Some (n - 65 + 10)
      else None)"

definition EncodeToString :: "bytes \<Rightarrow> string" where
  "EncodeToString bs =
     concat (map (\<lambda>b. [hexdigit ((of_char b :: nat) div 16), hexdigit ((of_char b :: nat) mod 16)]) bs)"

fun DecodeString :: "string \<Rightarrow> error + bytes" where
  "DecodeString [] = Inr []"
| "DecodeString [p] =
     (case fromHexChar p of
        None \<Rightarrow> Inl (LibError ''encoding/hex: invalid byte'')
      | Some _ \<Rightarrow> Inl (LibError ''encoding/hex: odd length hex string''))"
| "DecodeString (p # q # rest) =
     (case fromHexChar p of
        None \<Rightarrow> Inl (LibError ''encoding/hex: invalid byte'')
      | Some a \<Rightarrow>
         (case fromHexChar q of
            None \<Rightarrow> Inl (LibError ''encoding/hex: invalid byte'')
          | Some b \<Rightarrow>
             (case DecodeString rest of
                Inl e \<Rightarrow> Inl e
              | Inr bs \<Rightarrow> Inr (char_of (a * 16 + b) # bs))))"

text \<open>\<open>strings.Split(s, sep)\<close> for a one-byte separator.\<close>

fun Split :: "string \<Rightarrow> char \<Rightarrow> string list" where
  "Split [] c = [[]]"
| "Split (x # xs) c =
     (if x = c then [] # Split xs c
      else (case Split xs c of [] \<Rightarrow> [[x]] | y # ys \<Rightarrow> (x # y) # ys))"

text \<open>\<open>i[path]\<close>: the zero value (a nil slice) when the key is absent.\<close>

definition index_get :: "SchemeManagerIndex \<Rightarrow> string \<Rightarrow> ConfigurationFileHash" where
  "index_get i path = (case map_of i path of None \<Rightarrow> [] | Some h \<Rightarrow> h)"

text \<open>
  \<open>SchemeManagerIndex.String\<close>: the keys, sorted by \<open>sort.Strings\<close> (bytewise
  lexicographic), one line \<open>hash path\<close> each.
\<close>

definition index_line :: "SchemeManagerIndex \<Rightarrow> string \<Rightarrow> string" where
  "index_line i path = EncodeToString (index_get i path) @ '' '' @ path @ [CHR 0x0A]"

definition String :: "SchemeManagerIndex \<Rightarrow> string" where
  "String i = concat (map (index_line i) (sort (remdups (map fst i))))"

text \<open>
  \<open>SchemeManagerIndex.FromString\<close>: the receiver is changed in place, so the index
  is returned also when a line fails; then it holds the lines before the failure.
\<close>

fun FromString_lines ::
  "SchemeManagerIndex \<Rightarrow> nat \<Rightarrow> string list \<Rightarrow> SchemeManagerIndex \<times> error option" where
  "FromString_lines i j [] = (i, None)"
| "FromString_lines i j (line # lines) =
     (if length line = 0 then FromString_lines i (Suc j) lines
      else (case Split line CHR '' '' of
              [hash_hex, path] \<Rightarrow>
                (case DecodeString hash_hex of
                   Inl err \<Rightarrow> (i, Some err)
                 | Inr hash \<Rightarrow> FromString_lines (AList.update path hash i) (Suc j) lines)
            | _ \<Rightarrow> (i, Some (IndexLineError j))))"

definition FromString :: "SchemeManagerIndex \<Rightarrow> string \<Rightarrow> SchemeManagerIndex \<times> error option" where
  "FromString i s = FromString_lines i 0 (Split s (CHR 0x0A))"

section \<open>The file system and paths\<close>

text \<open>
  The disk is a map from paths to nodes. \<open>Inaccessible\<close> is a path on which
  \<open>os.Stat\<close> and reading fail with an error other than "does not exist".
  Paths are taken to be clean, so that \<open>filepath.Join\<close> is concatenation with
  one separator.
\<close>

datatype node = File bytes | Dir | Inaccessible

type_synonym filesystem = "string \<Rightarrow> node option"

definition Join :: "string \<Rightarrow> string \<Rightarrow> string" where
  "Join a b = a @ ''/'' @ b"

text \<open>\<open>filepath.Base\<close>: the last element, trailing separators removed first.\<close>

definition Base :: "string \<Rightarrow> string" where
  "Base p =
     (if p = [] then ''.''
      else (let q = rev (dropWhile (\<lambda>c. c = CHR ''/'') (rev p))
            in if q = [] then ''/'' else drop (nat (LastIndex q CHR ''/'' + 1)) q))"

text \<open>\<open>filepath.Dir\<close>: all but the last element.\<close>

definition filepath_Dir :: "string \<Rightarrow> string" where
  "filepath_Dir p =
     (let i = LastIndex p CHR ''/''
      in if i < 0 then ''.'' else if i = 0 then ''/'' else take (nat i) p)"

text \<open>\<open>ioutil.ReadFile\<close>.\<close>

definition ReadFile :: "filesystem \<Rightarrow> string \<Rightarrow> error + bytes" where
  "ReadFile fs path =
     (case fs path of Some (File bts) \<Rightarrow> Inr bts | _ \<Rightarrow> Inl (OSError path))"

text \<open>\<open>os.Stat\<close>, as far as the code looks at it: an error, or \<open>IsDir()\<close>.\<close>

definition Stat :: "filesystem \<Rightarrow> string \<Rightarrow> error + bool" where
  "Stat fs path =
     (case fs path of
        None \<Rightarrow> Inl (OSError path)
      | Some Inaccessible \<Rightarrow> Inl (OSError path)
      | Some Dir \<Rightarrow> Inr True
      | Some (File _) \<Rightarrow> Inr False)"

text \<open>
  Modelled from the spec: the package \<open>internal/fs\<close> is not among the files at
  hand; the spec lists its primitives (\<open>exists\<close>, \<open>copy\<close>, \<open>writeFile\<close>).
  \<open>PathExists\<close> is false without error for a path that does not exist and reports
  any other failure of \<open>os.Stat\<close>.
\<close>

definition PathExists :: "filesystem \<Rightarrow> string \<Rightarrow> bool \<times> error option" where
  "PathExists fs path =
     (case fs path of
        None \<Rightarrow> (False, None)
      | Some Inaccessible \<Rightarrow> (True, Some (OSError path))
      | Some _ \<Rightarrow> (True, None))"

text \<open>
  Modelled from the spec: \<open>fs.AssertPathExists(paths...)\<close>, an error for the first
  path that does not exist.
\<close>

fun AssertPathExists :: "filesystem \<Rightarrow> string list \<Rightarrow> error option" where
  "AssertPathExists fs [] = None"
| "AssertPathExists fs (p # ps) =
     (case PathExists fs p of
        (_, Some err) \<Rightarrow> Some err
      | (False, None) \<Rightarrow> Some (Error (''Path '' @ p @ '' does not exist''))
      | (True, None) \<Rightarrow> AssertPathExists fs ps)"

text \<open>
  Modelled from the spec: \<open>fs.SaveFile\<close> (\<open>writeFile\<close>): the file is written
  unless the path is a directory or cannot be accessed.
\<close>

definition SaveFile :: "filesystem \<Rightarrow> string \<Rightarrow> bytes \<Rightarrow> filesystem \<times> error option" where
  "SaveFile fs path bts =
     (case fs path of
        Some Dir \<Rightarrow> (fs, Some (OSError path))
      | Some Inaccessible \<Rightarrow> (fs, Some (OSError path))
      | _ \<Rightarrow> (fs(path \<mapsto> File bts), None))"

text \<open>
  Modelled from the spec: \<open>fs.Copy(src, dest)\<close> (\<open>copy\<close>): read the source,
  write the destination.
\<close>

definition Copy :: "filesystem \<Rightarrow> string \<Rightarrow> string \<Rightarrow> filesystem \<times> error option" where
  "Copy fs src dest =
     (case ReadFile fs src of
        Inl err \<Rightarrow> (fs, Some err)
      | Inr bts \<Rightarrow> SaveFile fs dest bts)"

text \<open>
  \<open>os.MkdirAll\<close>: the directory and every missing parent are created; it fails
  when one of them exists and is not a directory.
\<close>

fun parents :: "string \<Rightarrow> string \<Rightarrow> string list" where
  "parents pre [] = []"
| "parents pre (c # cs) =
     (if c = CHR ''/'' \<and> pre \<noteq> [] then pre # parents (pre @ [c]) cs
      else parents (pre @ [c]) cs)"

definition MkdirAll :: "filesystem \<Rightarrow> string \<Rightarrow> filesystem \<times> error option" where
  "MkdirAll fs path =
     (let ds = parents [] path @ [path]
      in if list_ex (\<lambda>d. case fs d of None \<Rightarrow> False | Some Dir \<Rightarrow> False | Some _ \<Rightarrow> True) ds
         then (fs, Some (OSError path))
         else (fold (\<lambda>d f. f(d \<mapsto> Dir)) ds fs, None))"

section \<open>Data model of the configuration\<close>

text \<open>
  Modelled from the spec: the structs \<open>SchemeManager\<close>, \<open>Issuer\<close> and
  \<open>CredentialType\<close> and their accessors are declared outside the files at hand.
  The spec gives a scheme manager an identifier, a URL, a schema version, its index,
  a status and a validity flag; an issuer and a credential type have an identifier, the
  identifier of their scheme manager, a schema version and a validity flag.
\<close>

record SchemeManager =
  m_ID :: string
  m_URL :: string
  m_XMLVersion :: int
  m_index :: SchemeManagerIndex
  m_Status :: SchemeManagerStatus
  m_Valid :: bool

record Issuer =
  i_Identifier :: IssuerIdentifier
  i_SchemeManagerIdentifier :: SchemeManagerIdentifier
  i_XMLVersion :: int
  i_Valid :: bool

record CredentialType =
  c_Identifier :: CredentialTypeIdentifier
  c_SchemeManagerIdentifier :: SchemeManagerIdentifier
  c_XMLVersion :: int
  c_Valid :: bool

text \<open>\<open>gabi.PublicKey\<close>: the issuer it is tagged with, and the key material.\<close>

record PublicKey =
  pk_Issuer :: string
  pk_material :: bytes

text \<open>
  Modelled from the spec: \<open>NewSchemeManager(name)\<close>, a manager that is
  \<open>Unprocessed\<close> and not valid.
\<close>

definition NewSchemeManager :: "string \<Rightarrow> SchemeManager" where
  "NewSchemeManager name =
     \<lparr> m_ID = name, m_URL = [], m_XMLVersion = 0, m_index = [],
       m_Status = SchemeManagerStatusUnprocessed, m_Valid = False \<rparr>"

definition Identifier :: "SchemeManager \<Rightarrow> SchemeManagerIdentifier" where
  "Identifier manager = NewSchemeManagerIdentifier (m_ID manager)"

type_synonym DisabledEntry = "SchemeManagerIdentifier \<times> SchemeManagerStatus \<times> error"

record Configuration =
  SchemeManagers :: "(SchemeManagerIdentifier \<times> SchemeManager) list"
  Issuers :: "(IssuerIdentifier \<times> Issuer) list"
  CredentialTypes :: "(CredentialTypeIdentifier \<times> CredentialType) list"
  Path :: string
  DisabledSchemeManagers :: "(SchemeManagerIdentifier \<times> DisabledEntry) list"
  publicKeys :: "(IssuerIdentifier \<times> (int \<times> PublicKey) list) list"
  reverseHashes :: "(string \<times> CredentialTypeIdentifier) list"
  initialized :: bool
  assets :: string

section \<open>Libraries the code calls\<close>

text \<open>
  The standard library, \<open>gabi\<close> and the HTTP transport are parameters: every
  theorem holds whatever they compute. Those that parse untrusted bytes may panic.
\<close>

datatype GenericPublicKey = ECDSAPublicKey bytes | OtherPublicKey bytes

record library =
  sha256_Sum256 :: "bytes \<Rightarrow> bytes"
  base64_EncodeToString :: "bytes \<Rightarrow> string"
  pem_Decode :: "bytes \<Rightarrow> panic + bytes option"
  x509_ParsePKIXPublicKey :: "bytes \<Rightarrow> panic + (error + GenericPublicKey)"
  asn1_Unmarshal :: "bytes \<Rightarrow> panic + (int list \<times> bytes \<times> error option)"
  ecdsa_Verify :: "bytes \<Rightarrow> bytes \<Rightarrow> int \<Rightarrow> int \<Rightarrow> panic + bool"
  xml_Unmarshal_SchemeManager :: "bytes \<Rightarrow> SchemeManager \<Rightarrow> SchemeManager \<times> error option"
  xml_Unmarshal_Issuer :: "bytes \<Rightarrow> Issuer \<times> error option"
  xml_Unmarshal_CredentialType :: "bytes \<Rightarrow> CredentialType \<times> error option"
  gabi_NewPublicKeyFromBytes :: "bytes \<Rightarrow> error + PublicKey"
  filepath_Glob :: "string \<Rightarrow> error + string list"
  http_GetBytes :: "string \<Rightarrow> error + bytes"
  issPattern_FindStringSubmatch :: "string \<Rightarrow> string list"
  credPattern_FindStringSubmatch :: "string \<Rightarrow> string list"

section \<open>Authenticated reads and the signature of the index\<close>

text \<open>\<open>Configuration.ReadAuthenticatedFile\<close>: bytes (or nil), found, error.\<close>

definition ReadAuthenticatedFile ::
  "library \<Rightarrow> filesystem \<Rightarrow> Configuration \<Rightarrow> SchemeManager \<Rightarrow> string
     \<Rightarrow> bytes option \<times> bool \<times> error option" where
  "ReadAuthenticatedFile lib fs conf manager path =
     (case map_of (m_index manager) path of
        None \<Rightarrow> (None, False, None)
      | Some signedHash \<Rightarrow>
         (case ReadFile fs (Join (Path conf) path) of
            Inl err \<Rightarrow> (None, True, Some err)
          | Inr bts \<Rightarrow>
             (if sha256_Sum256 lib bts \<noteq> signedHash
              then (None, True,
                    Some (Error (''Hash of '' @ path @ '' does not match scheme manager index'')))
              else (Some bts, True, None))))"

text \<open>
  The body of \<open>Configuration.VerifySignature\<close>, below its deferred function. The
  block of \<open>pem.Decode\<close> is nil when the file holds no PEM data, and
  \<open>pkblk.Bytes\<close> then dereferences nil; the error of \<open>asn1.Unmarshal\<close> is
  assigned and never read, and \<open>ints[0]\<close>, \<open>ints[1]\<close> are out of range when fewer
  than two integers were decoded.
\<close>

definition VerifySignature_body ::
  "library \<Rightarrow> filesystem \<Rightarrow> Configuration \<Rightarrow> SchemeManagerIdentifier
     \<Rightarrow> panic + (bool \<times> error option)" where
  "VerifySignature_body lib fs conf mid =
     (let dir = Join (Path conf) (SchemeManagerIdentifier_String mid) in
      case AssertPathExists fs [dir @ ''/index'', dir @ ''/index.sig'', dir @ ''/pk.pem''] of
        Some _ \<Rightarrow>
          Inr (False, Some (Error ''Missing scheme manager index file, signature, or public key''))
      | None \<Rightarrow>
      (case ReadFile fs (dir @ ''/index'') of
        Inl err \<Rightarrow> Inr (False, Some err)
      | Inr indexbts \<Rightarrow>
      (let indexhash = sha256_Sum256 lib indexbts in
       case ReadFile fs (dir @ ''/pk.pem'') of
        Inl err \<Rightarrow> Inr (False, Some err)
      | Inr pkbts \<Rightarrow>
      (case pem_Decode lib pkbts of
        Inl p \<Rightarrow> Inl p
      | Inr None \<Rightarrow> Inl (RuntimeError ''invalid memory address or nil pointer dereference'')
      | Inr (Some pkblk_Bytes) \<Rightarrow>
      (case x509_ParsePKIXPublicKey lib pkblk_Bytes of
        Inl p \<Rightarrow> Inl p
      | Inr (Inl err) \<Rightarrow> Inr (False, Some err)
      | Inr (Inr (OtherPublicKey _)) \<Rightarrow>
          Inr (False, Some (Error ''Invalid scheme manager public key''))
      | Inr (Inr (ECDSAPublicKey pk)) \<Rightarrow>
      (case ReadFile fs (dir @ ''/index.sig'') of
        Inl err \<Rightarrow> Inr (False, Some err)
      | Inr sig \<Rightarrow>
      (case asn1_Unmarshal lib sig of
        Inl p \<Rightarrow> Inl p
      | Inr (ints, rest, err) \<Rightarrow>
          (if length ints < 2 then Inl (RuntimeError ''index out of range'')
           else (case ecdsa_Verify lib pk indexhash (ints ! 0) (ints ! 1) of
                   Inl p \<Rightarrow> Inl p
                 | Inr valid \<Rightarrow> Inr (valid, None))))))))))"

text \<open>
  The deferred function: \<open>recover()\<close> turns a panic of the body into the result
  \<open>valid = false\<close> with an error that quotes the panic when its value is an error.
\<close>

fun recovered :: "panic \<Rightarrow> bool \<times> error option" where
  "recovered (RuntimeError msg) =
     (False, Some (Error (''Scheme manager index signature failed to verify: '' @ msg)))"
| "recovered (PanicValue v) =
     (False, Some (Error ''Scheme manager index signature failed to verify''))"

definition VerifySignature ::
  "library \<Rightarrow> filesystem \<Rightarrow> Configuration \<Rightarrow> SchemeManagerIdentifier
     \<Rightarrow> panic + (bool \<times> error option)" where
  "VerifySignature lib fs conf mid =
     (case VerifySignature_body lib fs conf mid of
        Inl p \<Rightarrow> Inr (recovered p)
      | Inr r \<Rightarrow> Inr r)"

section \<open>Updating a scheme manager from its remote\<close>

text \<open>
  Modelled from the spec: the HTTP transport (\<open>Transport.getFile(path, destination)\<close>)
  is not among the files at hand. \<open>GetFile\<close> fetches the bytes at the server's URL
  followed by the path and saves them at the destination; nothing is written when the
  fetch fails.
\<close>

definition transport_url :: "string \<Rightarrow> string \<Rightarrow> string" where
  "transport_url server url =
     (if server = [] \<or> last server = CHR ''/'' then server @ url else server @ ''/'' @ url)"

definition GetFile ::
  "library \<Rightarrow> string \<Rightarrow> string \<Rightarrow> string \<Rightarrow> filesystem \<Rightarrow> filesystem \<times> error option" where
  "GetFile lib server url dest fs =
     (case http_GetBytes lib (transport_url server url) of
        Inl err \<Rightarrow> (fs, Some err)
      | Inr bts \<Rightarrow> SaveFile fs dest bts)"

definition backupManagerSignature ::
  "filesystem \<Rightarrow> string \<Rightarrow> string \<Rightarrow> filesystem \<times> error option" where
  "backupManagerSignature fs index sig =
     (case Copy fs index (index @ ''.backup'') of
        (fs1, Some err) \<Rightarrow> (fs1, Some err)
      | (fs1, None) \<Rightarrow>
         (case Copy fs1 sig (sig @ ''.backup'') of
            (fs2, Some err) \<Rightarrow> (fs2, Some err)
          | (fs2, None) \<Rightarrow> (fs2, None)))"

definition restoreManagerSignature ::
  "filesystem \<Rightarrow> string \<Rightarrow> string \<Rightarrow> filesystem \<times> error option" where
  "restoreManagerSignature fs index sig =
     (case Copy fs (index @ ''.backup'') index of
        (fs1, Some err) \<Rightarrow> (fs1, Some err)
      | (fs1, None) \<Rightarrow>
         (case Copy fs1 (sig @ ''.backup'') sig of
            (fs2, Some err) \<Rightarrow> (fs2, Some err)
          | (fs2, None) \<Rightarrow> (fs2, None)))"

text \<open>
  \<open>Configuration.DownloadSchemeManagerSignature\<close>. The part after the backup runs
  under the deferred function, which restores the backup when the named result
  \<open>err\<close> is not nil and drops the error of the restore.
\<close>

definition download_and_verify ::
  "library \<Rightarrow> filesystem \<Rightarrow> Configuration \<Rightarrow> SchemeManager \<Rightarrow> string \<Rightarrow> string
     \<Rightarrow> panic + (filesystem \<times> error option)" where
  "download_and_verify lib fs conf manager index sig =
     (case GetFile lib (m_URL manager) ''index'' index fs of
        (fs1, Some err) \<Rightarrow> Inr (fs1, Some err)
      | (fs1, None) \<Rightarrow>
         (case GetFile lib (m_URL manager) ''index.sig'' sig fs1 of
            (fs2, Some err) \<Rightarrow> Inr (fs2, Some err)
          | (fs2, None) \<Rightarrow>
             (case VerifySignature lib fs2 conf (Identifier manager) of
                Inl p \<Rightarrow> Inl p
              | Inr (valid, Some err) \<Rightarrow> Inr (fs2, Some err)
              | Inr (valid, None) \<Rightarrow>
                  (if \<not> valid then Inr (fs2, Some (Error ''Scheme manager signature invalid''))
                   else Inr (fs2, None)))))"

definition DownloadSchemeManagerSignature ::
  "library \<Rightarrow> filesystem \<Rightarrow> Configuration \<Rightarrow> SchemeManager
     \<Rightarrow> panic + (filesystem \<times> error option)" where
  "DownloadSchemeManagerSignature lib fs conf manager =
     (let path = Path conf @ ''/'' @ m_ID manager;
          index = Join path ''index'';
          sig = Join path ''index.sig''
      in case backupManagerSignature fs index sig of
           (fs1, Some err) \<Rightarrow> Inr (fs1, Some err)
         | (fs1, None) \<Rightarrow>
            (case download_and_verify lib fs1 conf manager index sig of
               Inl p \<Rightarrow> Inl p
             | Inr (fs2, Some err) \<Rightarrow> Inr (fst (restoreManagerSignature fs2 index sig), Some err)
             | Inr (fs2, None) \<Rightarrow> Inr (fs2, None)))"

text \<open>\<open>Configuration.parseIndex\<close>: the index (nil when the file is missing) and an error.\<close>

definition parseIndex ::
  "filesystem \<Rightarrow> Configuration \<Rightarrow> string \<Rightarrow> SchemeManagerIndex \<times> error option" where
  "parseIndex fs conf name =
     (let path = Join (Join (Path conf) name) ''index'' in
      case AssertPathExists fs [path] of
        Some _ \<Rightarrow> ([], Some (Error (''Missing scheme manager index file; tried '' @ path)))
      | None \<Rightarrow>
         (case ReadFile fs path of
            Inl err \<Rightarrow> ([], Some err)
          | Inr indexbts \<Rightarrow> FromString [] indexbts))"

text \<open>
  \<open>IrmaIdentifierSet\<close>, as far as \<open>UpdateSchemeManager\<close> writes it: the issuers and
  the credential types. The caller may pass nil.
\<close>

record IrmaIdentifierSet =
  set_Issuers :: "IssuerIdentifier list"
  set_CredentialTypes :: "CredentialTypeIdentifier list"

definition record_downloaded ::
  "library \<Rightarrow> string \<Rightarrow> IrmaIdentifierSet \<Rightarrow> IrmaIdentifierSet" where
  "record_downloaded lib filename downloaded =
     (let d1 = (case issPattern_FindStringSubmatch lib filename of
                  [_, a, b] \<Rightarrow>
                    downloaded\<lparr>set_Issuers :=
                      List.insert (NewIssuerIdentifier (a @ ''.'' @ b)) (set_Issuers downloaded)\<rparr>
                | _ \<Rightarrow> downloaded)
      in (case credPattern_FindStringSubmatch lib filename of
            [_, a, b, c] \<Rightarrow>
              d1\<lparr>set_CredentialTypes :=
                List.insert (NewCredentialTypeIdentifier (a @ ''.'' @ b @ ''.'' @ c))
                  (set_CredentialTypes d1)\<rparr>
          | _ \<Rightarrow> d1))"

text \<open>
  The calls the loop makes to create directories and to download, in order: a log
  beside the state, so that "no download was made" can be said.
\<close>

datatype action = MkdirAll_call string | GetFile_call string string

type_synonym sync_state = "filesystem \<times> IrmaIdentifierSet option \<times> action list"

text \<open>
  One round of the loop of \<open>UpdateSchemeManager\<close> over the new index. The error,
  when there is one, is what the function returns with.
\<close>

definition sync_file ::
  "library \<Rightarrow> Configuration \<Rightarrow> SchemeManager \<Rightarrow> string \<times> ConfigurationFileHash
     \<Rightarrow> sync_state \<Rightarrow> panic + (sync_state \<times> error option)" where
  "sync_file lib conf manager entry st =
     (case (entry, st) of ((filename, newHash), (fs, downloaded, log)) \<Rightarrow>
      (let path = Join (Path conf) filename;
           old = map_of (m_index manager) filename
       in case PathExists fs path of
            (have, Some err) \<Rightarrow> Inr (st, Some err)
          | (have, None) \<Rightarrow>
             (if old \<noteq> None \<and> have \<and> index_get (m_index manager) filename = newHash
              then Inr (st, None)
              else
               (case MkdirAll fs (filepath_Dir path) of
                  (fs1, Some err) \<Rightarrow>
                    Inr ((fs1, downloaded, log @ [MkdirAll_call (filepath_Dir path)]), Some err)
                | (fs1, None) \<Rightarrow>
                   (case slice_from filename (int (length (m_ID manager)) + 1) of
                      Inl p \<Rightarrow> Inl p
                    | Inr stripped \<Rightarrow>
                       (let url = m_URL manager @ ''/'' @ stripped;
                            log1 = log @ [MkdirAll_call (filepath_Dir path), GetFile_call url path]
                        in case GetFile lib [] url path fs1 of
                             (fs2, Some err) \<Rightarrow> Inr ((fs2, downloaded, log1), Some err)
                           | (fs2, None) \<Rightarrow>
                              Inr ((fs2, map_option (record_downloaded lib filename) downloaded, log1),
                                   None)))))))"

fun sync_files ::
  "library \<Rightarrow> Configuration \<Rightarrow> SchemeManager \<Rightarrow> (string \<times> ConfigurationFileHash) list
     \<Rightarrow> sync_state \<Rightarrow> panic + (sync_state \<times> error option)" where
  "sync_files lib conf manager [] st = Inr (st, None)"
| "sync_files lib conf manager (entry # entries) st =
     (case sync_file lib conf manager entry st of
        Inl p \<Rightarrow> Inl p
      | Inr (st1, Some err) \<Rightarrow> Inr (st1, Some err)
      | Inr (st1, None) \<Rightarrow> sync_files lib conf manager entries st1)"

text \<open>
  \<open>Configuration.UpdateSchemeManager\<close>: the disk, the configuration (the manager's
  index is replaced at the end), the set of downloaded identifiers, the log, the error.
\<close>

definition UpdateSchemeManager ::
  "library \<Rightarrow> filesystem \<Rightarrow> Configuration \<Rightarrow> SchemeManagerIdentifier
     \<Rightarrow> IrmaIdentifierSet option
     \<Rightarrow> panic + (filesystem \<times> Configuration \<times> IrmaIdentifierSet option \<times> action list
                  \<times> error option)" where
  "UpdateSchemeManager lib fs conf mid downloaded =
     (case map_of (SchemeManagers conf) mid of
        None \<Rightarrow>
          Inr (fs, conf, downloaded, [],
               Some (Error (''Cannot update unknown scheme manager ''
                             @ SchemeManagerIdentifier_String mid)))
      | Some manager \<Rightarrow>
         (case DownloadSchemeManagerSignature lib fs conf manager of
            Inl p \<Rightarrow> Inl p
          | Inr (fs1, Some err) \<Rightarrow> Inr (fs1, conf, downloaded, [], Some err)
          | Inr (fs1, None) \<Rightarrow>
             (case parseIndex fs1 conf (m_ID manager) of
                (newIndex, Some err) \<Rightarrow> Inr (fs1, conf, downloaded, [], Some err)
              | (newIndex, None) \<Rightarrow>
                 (case sync_files lib conf manager newIndex (fs1, downloaded, []) of
                    Inl p \<Rightarrow> Inl p
                  | Inr ((fs2, downloaded2, log), Some err) \<Rightarrow>
                      Inr (fs2, conf, downloaded2, log, Some err)
                  | Inr ((fs2, downloaded2, log), None) \<Rightarrow>
                      Inr (fs2,
                           conf\<lparr>SchemeManagers :=
                             AList.update mid (manager\<lparr>m_index := newIndex\<rparr>)
                               (SchemeManagers conf)\<rparr>,
                           downloaded2, log, None)))))"

section \<open>Parsing the configuration folder\<close>

definition HasSuffix :: "string \<Rightarrow> string \<Rightarrow> bool" where
  "HasSuffix s suffix =
     (length suffix \<le> length s \<and> drop (length s - length suffix) s = suffix)"

text \<open>\<open>relativePath\<close>: \<open>relative[len(absolute)+1:]\<close>.\<close>

definition relativePath :: "string \<Rightarrow> string \<Rightarrow> panic + string" where
  "relativePath absolute relative = slice_from relative (int (length absolute) + 1)"

text \<open>
  \<open>iterateSubfolders\<close>: the handler runs on every match of \<open>path/*\<close> that is a
  directory and does not end in \<open>/.git\<close>; the first error stops the loop. The state
  that the handler changes is passed along, and returned also with an error.
\<close>

fun iterate_dirs ::
  "(string \<Rightarrow> 's \<Rightarrow> panic + ('s \<times> error option)) \<Rightarrow> filesystem \<Rightarrow> string list \<Rightarrow> 's
     \<Rightarrow> panic + ('s \<times> error option)" where
  "iterate_dirs handler fs [] s = Inr (s, None)"
| "iterate_dirs handler fs (dir # dirs) s =
     (case Stat fs dir of
        Inl err \<Rightarrow> Inr (s, Some err)
      | Inr isDir \<Rightarrow>
         (if \<not> isDir then iterate_dirs handler fs dirs s
          else if HasSuffix dir ''/.git'' then iterate_dirs handler fs dirs s
          else (case handler dir s of
                  Inl p \<Rightarrow> Inl p
                | Inr (s1, Some err) \<Rightarrow> Inr (s1, Some err)
                | Inr (s1, None) \<Rightarrow> iterate_dirs handler fs dirs s1)))"

definition iterateSubfolders ::
  "library \<Rightarrow> filesystem \<Rightarrow> string \<Rightarrow> (string \<Rightarrow> 's \<Rightarrow> panic + ('s \<times> error option)) \<Rightarrow> 's
     \<Rightarrow> panic + ('s \<times> error option)" where
  "iterateSubfolders lib fs path handler s =
     (case filepath_Glob lib (path @ ''/*'') of
        Inl err \<Rightarrow> Inr (s, Some err)
      | Inr dirs \<Rightarrow> iterate_dirs handler fs dirs s)"

text \<open>
  \<open>Configuration.pathToDescription\<close>: exists, error, and the description after
  \<open>xml.Unmarshal\<close> has written into it.
\<close>

definition pathToDescription ::
  "library \<Rightarrow> filesystem \<Rightarrow> Configuration \<Rightarrow> SchemeManager \<Rightarrow> string
     \<Rightarrow> (bytes \<Rightarrow> 'd \<Rightarrow> 'd \<times> error option) \<Rightarrow> 'd \<Rightarrow> panic + (bool \<times> error option \<times> 'd)" where
  "pathToDescription lib fs conf manager path unmarshal description =
     (case Stat fs path of
        Inl _ \<Rightarrow> Inr (False, None, description)
      | Inr _ \<Rightarrow>
         (case relativePath (Path conf) path of
            Inl p \<Rightarrow> Inl p
          | Inr rel \<Rightarrow>
             (case ReadAuthenticatedFile lib fs conf manager rel of
                (bts, found, err) \<Rightarrow>
                  (if \<not> found then Inr (False, None, description)
                   else (case err of
                           Some e \<Rightarrow> Inr (True, Some e, description)
                         | None \<Rightarrow>
                            (case unmarshal (case bts of None \<Rightarrow> [] | Some b \<Rightarrow> b) description of
                               (d, Some e) \<Rightarrow> Inr (True, Some e, d)
                             | (d, None) \<Rightarrow> Inr (True, None, d)))))))"

text \<open>
  Modelled from the spec: which fields of a \<open>SchemeManager\<close> the XML decoder writes
  is fixed by the struct declaration, which is not among the files at hand. The spec
  has the description unmarshalled "into the manager's own descriptor fields": the
  index, the status and the validity flag are not among them.
\<close>

definition unmarshal_manager ::
  "library \<Rightarrow> bytes \<Rightarrow> SchemeManager \<Rightarrow> SchemeManager \<times> error option" where
  "unmarshal_manager lib bts manager =
     (case xml_Unmarshal_SchemeManager lib bts manager of
        (m, err) \<Rightarrow>
          (m\<lparr>m_index := m_index manager, m_Status := m_Status manager,
              m_Valid := m_Valid manager\<rparr>, err))"

definition addReverseHash ::
  "library \<Rightarrow> Configuration \<Rightarrow> CredentialTypeIdentifier \<Rightarrow> Configuration" where
  "addReverseHash lib conf credid =
     conf\<lparr>reverseHashes :=
       AList.update
         (base64_EncodeToString lib
            (take 16 (sha256_Sum256 lib (CredentialTypeIdentifier_String credid))))
         credid (reverseHashes conf)\<rparr>"

text \<open>
  The handler of \<open>parseCredentialsFolder\<close>. \<open>conf.SchemeManagers[...]\<close> is a nil
  pointer for a manager that is not in the map, and \<open>.Valid\<close> then panics.
\<close>

definition credential_handler ::
  "library \<Rightarrow> filesystem \<Rightarrow> SchemeManager \<Rightarrow> string \<Rightarrow> Configuration
     \<Rightarrow> panic + (Configuration \<times> error option)" where
  "credential_handler lib fs manager dir conf =
     (case pathToDescription lib fs conf manager (dir @ ''/description.xml'')
             (\<lambda>bts _. xml_Unmarshal_CredentialType lib bts)
             \<lparr> c_Identifier = NewCredentialTypeIdentifier [],
               c_SchemeManagerIdentifier = NewSchemeManagerIdentifier [],
               c_XMLVersion = 0, c_Valid = False \<rparr> of
        Inl p \<Rightarrow> Inl p
      | Inr (exists, Some err, cred) \<Rightarrow> Inr (conf, Some err)
      | Inr (exists, None, cred) \<Rightarrow>
         (if \<not> exists then Inr (conf, None)
          else if c_XMLVersion cred < 4
          then Inr (conf, Some (Error ''Unsupported credential type description''))
          else (case map_of (SchemeManagers conf) (c_SchemeManagerIdentifier cred) of
                  None \<Rightarrow> Inl (RuntimeError ''invalid memory address or nil pointer dereference'')
                | Some m \<Rightarrow>
                   (let credid = c_Identifier cred;
                        conf1 = conf\<lparr>CredentialTypes :=
                                  AList.update credid (cred\<lparr>c_Valid := m_Valid m\<rparr>)
                                    (CredentialTypes conf)\<rparr>
                    in Inr (addReverseHash lib conf1 credid, None)))))"

definition parseCredentialsFolder ::
  "library \<Rightarrow> filesystem \<Rightarrow> Configuration \<Rightarrow> SchemeManager \<Rightarrow> string
     \<Rightarrow> panic + (Configuration \<times> error option)" where
  "parseCredentialsFolder lib fs conf manager path =
     iterateSubfolders lib fs path (credential_handler lib fs manager) conf"

text \<open>
  The handler of \<open>parseIssuerFolders\<close>. The issuer is put into the map and then
  given the validity of its manager; the map holds a pointer, so it sees that change.
\<close>

definition issuer_handler ::
  "library \<Rightarrow> filesystem \<Rightarrow> SchemeManager \<Rightarrow> string \<Rightarrow> Configuration
     \<Rightarrow> panic + (Configuration \<times> error option)" where
  "issuer_handler lib fs manager dir conf =
     (case pathToDescription lib fs conf manager (dir @ ''/description.xml'')
             (\<lambda>bts _. xml_Unmarshal_Issuer lib bts)
             \<lparr> i_Identifier = NewIssuerIdentifier [],
               i_SchemeManagerIdentifier = NewSchemeManagerIdentifier [],
               i_XMLVersion = 0, i_Valid = False \<rparr> of
        Inl p \<Rightarrow> Inl p
      | Inr (exists, Some err, issuer) \<Rightarrow> Inr (conf, Some err)
      | Inr (exists, None, issuer) \<Rightarrow>
         (if \<not> exists then Inr (conf, None)
          else if i_XMLVersion issuer < 4
          then Inr (conf, Some (Error ''Unsupported issuer description''))
          else (case map_of (SchemeManagers conf) (i_SchemeManagerIdentifier issuer) of
                  None \<Rightarrow> Inl (RuntimeError ''invalid memory address or nil pointer dereference'')
                | Some m \<Rightarrow>
                   parseCredentialsFolder lib fs
                     (conf\<lparr>Issuers :=
                        AList.update (i_Identifier issuer) (issuer\<lparr>i_Valid := m_Valid m\<rparr>)
                          (Issuers conf)\<rparr>)
                     manager (dir @ ''/Issues/''))))"

definition parseIssuerFolders ::
  "library \<Rightarrow> filesystem \<Rightarrow> Configuration \<Rightarrow> SchemeManager \<Rightarrow> string
     \<Rightarrow> panic + (Configuration \<times> error option)" where
  "parseIssuerFolders lib fs conf manager path =
     iterateSubfolders lib fs path (issuer_handler lib fs manager) conf"

text \<open>\<open>Configuration.VerifySchemeManager\<close>: the signature, then every file of the index
  that exists on disk.\<close>

fun verify_files ::
  "library \<Rightarrow> filesystem \<Rightarrow> Configuration \<Rightarrow> SchemeManager \<Rightarrow> string list \<Rightarrow> error option" where
  "verify_files lib fs conf manager [] = None"
| "verify_files lib fs conf manager (file # files) =
     (case PathExists fs (Join (Path conf) file) of
        (exists, Some err) \<Rightarrow> Some err
      | (exists, None) \<Rightarrow>
         (if \<not> exists then verify_files lib fs conf manager files
          else (case ReadAuthenticatedFile lib fs conf manager file of
                  (_, _, Some err) \<Rightarrow> Some err
                | (_, _, None) \<Rightarrow> verify_files lib fs conf manager files)))"

definition VerifySchemeManager ::
  "library \<Rightarrow> filesystem \<Rightarrow> Configuration \<Rightarrow> SchemeManager \<Rightarrow> panic + error option" where
  "VerifySchemeManager lib fs conf manager =
     (case VerifySignature lib fs conf (Identifier manager) of
        Inl p \<Rightarrow> Inl p
      | Inr (valid, Some err) \<Rightarrow> Inr (Some err)
      | Inr (valid, None) \<Rightarrow>
         (if \<not> valid then Inr (Some (Error ''Scheme manager signature was invalid''))
          else Inr (verify_files lib fs conf manager (map fst (m_index manager)))))"

text \<open>
  \<open>Configuration.ParseSchemeManagerFolder\<close>. The map \<open>SchemeManagers\<close> holds a
  pointer to the manager, under the identifier the manager had when it was put there:
  \<open>store_manager\<close> writes the manager back under that key, so that the map always
  shows the manager as it is. \<open>manager_description_steps\<close> are the statements from
  the check for \<open>description.xml\<close> to the check of the version; they change the
  manager only. The deferred function wraps any error into a \<open>SchemeManagerError\<close>
  with the manager's identifier and status at that moment.
\<close>

definition store_manager ::
  "Configuration \<Rightarrow> SchemeManagerIdentifier \<Rightarrow> SchemeManager \<Rightarrow> Configuration" where
  "store_manager conf key manager =
     conf\<lparr>SchemeManagers := AList.update key manager (SchemeManagers conf)\<rparr>"

definition manager_description_steps ::
  "library \<Rightarrow> filesystem \<Rightarrow> Configuration \<Rightarrow> string \<Rightarrow> SchemeManager
     \<Rightarrow> panic + (SchemeManager \<times> error option)" where
  "manager_description_steps lib fs conf dir manager =
     (case AssertPathExists fs [dir @ ''/description.xml''] of
        Some err \<Rightarrow> Inr (manager, Some err)
      | None \<Rightarrow>
     (case parseIndex fs conf (Base dir) of
        (idx, Some err) \<Rightarrow>
          Inr (manager\<lparr>m_index := idx, m_Status := SchemeManagerStatusInvalidIndex\<rparr>, Some err)
      | (idx, None) \<Rightarrow>
     (let m1 = manager\<lparr>m_index := idx\<rparr> in
      case VerifySchemeManager lib fs conf m1 of
        Inl p \<Rightarrow> Inl p
      | Inr (Some err) \<Rightarrow> Inr (m1\<lparr>m_Status := SchemeManagerStatusInvalidSignature\<rparr>, Some err)
      | Inr None \<Rightarrow>
     (case pathToDescription lib fs conf m1 (dir @ ''/description.xml'')
             (unmarshal_manager lib) m1 of
        Inl p \<Rightarrow> Inl p
      | Inr (exists, err, m2) \<Rightarrow>
         (if \<not> exists
          then Inr (m2\<lparr>m_Status := SchemeManagerStatusParsingError\<rparr>,
                    Some (Error ''Scheme manager description not found''))
          else (case err of
                  Some e \<Rightarrow> Inr (m2\<lparr>m_Status := SchemeManagerStatusParsingError\<rparr>, Some e)
                | None \<Rightarrow>
                   (if m_XMLVersion m2 < 7
                    then Inr (m2\<lparr>m_Status := SchemeManagerStatusParsingError\<rparr>,
                              Some (Error ''Unsupported scheme manager description''))
                    else Inr (m2, None))))))))"

definition ParseSchemeManagerFolder ::
  "library \<Rightarrow> filesystem \<Rightarrow> Configuration \<Rightarrow> string \<Rightarrow> SchemeManager
     \<Rightarrow> panic + (Configuration \<times> SchemeManager \<times> error option)" where
  "ParseSchemeManagerFolder lib fs conf dir manager =
     (let key = Identifier manager;
          conf1 = store_manager conf key manager
      in case manager_description_steps lib fs conf1 dir manager of
           Inl p \<Rightarrow> Inl p
         | Inr (m, Some err) \<Rightarrow>
             Inr (store_manager conf1 key m, m,
                  Some (SchemeManagerError (Identifier m) (m_Status m) err))
         | Inr (m, None) \<Rightarrow>
            (case parseIssuerFolders lib fs (store_manager conf1 key m) m dir of
               Inl p \<Rightarrow> Inl p
             | Inr (conf2, Some err) \<Rightarrow>
                 (let m' = m\<lparr>m_Status := SchemeManagerStatusContentParsingError\<rparr>
                  in Inr (store_manager conf2 key m', m',
                          Some (SchemeManagerError (Identifier m') (m_Status m') err)))
             | Inr (conf2, None) \<Rightarrow>
                 (let m' = m\<lparr>m_Status := SchemeManagerStatusValid, m_Valid := True\<rparr>
                  in Inr (store_manager conf2 key m', m', None))))"




section \<open>Removing scheme managers\<close>






section \<open>Public keys\<close>

text \<open>\<open>strconv.Atoi\<close>: an optional sign and decimal digits, within 64 bits.\<close>

definition is_digit :: "char \<Rightarrow> bool" where
  "is_digit c = (48 \<le> (of_char c :: nat) \<and> (of_char c :: nat) \<le> 57)"

definition Atoi :: "string \<Rightarrow> error + int" where
  "Atoi s =
     (case (case s of
              [] \<Rightarrow> (False, s)
            | c # r \<Rightarrow> if c = CHR ''-'' then (True, r)
                       else if c = CHR ''+'' then (False, r) else (False, s)) of
        (neg, ds) \<Rightarrow>
          (if ds = [] \<or> \<not> list_all is_digit ds
           then Inl (LibError ''strconv.Atoi: invalid syntax'')
           else (let n = foldl (\<lambda>a c. a * 10 + (int (of_char c) - 48)) 0 ds;
                     v = (if neg then - n else n)
                 in if v < - (2 ^ 63) \<or> 2 ^ 63 - 1 < v
                    then Inl (LibError ''strconv.Atoi: value out of range'')
                    else Inr v)))"

text \<open>
  The loop of \<open>parseKeysFolder\<close> over the files that match. The manager is a pointer
  and may be nil; \<open>ReadAuthenticatedFile\<close> then panics on \<open>manager.index\<close>. A file
  that is not found ends the loop with the nil error.
\<close>

fun parse_key_files ::
  "library \<Rightarrow> filesystem \<Rightarrow> SchemeManager option \<Rightarrow> IssuerIdentifier \<Rightarrow> string list
     \<Rightarrow> Configuration \<Rightarrow> panic + (Configuration \<times> error option)" where
  "parse_key_files lib fs manager issuerid [] conf = Inr (conf, None)"
| "parse_key_files lib fs manager issuerid (file # files) conf =
     (let filename = Base file in
      case slice_to filename (int (length filename) - 4) of
        Inl p \<Rightarrow> Inl p
      | Inr count \<Rightarrow>
     (case Atoi count of
        Inl _ \<Rightarrow> parse_key_files lib fs manager issuerid files conf
      | Inr i \<Rightarrow>
     (case relativePath (Path conf) file of
        Inl p \<Rightarrow> Inl p
      | Inr rel \<Rightarrow>
     (case manager of
        None \<Rightarrow> Inl (RuntimeError ''invalid memory address or nil pointer dereference'')
      | Some m \<Rightarrow>
     (case ReadAuthenticatedFile lib fs conf m rel of
        (bts, found, err) \<Rightarrow>
          (if err \<noteq> None \<or> \<not> found then Inr (conf, err)
           else (case gabi_NewPublicKeyFromBytes lib (case bts of None \<Rightarrow> [] | Some b \<Rightarrow> b) of
                   Inl e \<Rightarrow> Inr (conf, Some e)
                 | Inr pk \<Rightarrow>
                    (case map_of (publicKeys conf) issuerid of
                       None \<Rightarrow> Inl (RuntimeError ''assignment to entry in nil map'')
                     | Some keys \<Rightarrow>
                        parse_key_files lib fs manager issuerid files
                          (conf\<lparr>publicKeys :=
                             AList.update issuerid
                               (AList.update i
                                  (pk\<lparr>pk_Issuer := IssuerIdentifier_String issuerid\<rparr>) keys)
                               (publicKeys conf)\<rparr>)))))))))"

definition parseKeysFolder ::
  "library \<Rightarrow> filesystem \<Rightarrow> Configuration \<Rightarrow> SchemeManager option \<Rightarrow> IssuerIdentifier
     \<Rightarrow> panic + (Configuration \<times> error option)" where
  "parseKeysFolder lib fs conf manager issuerid =
     (case IssuerIdentifier_SchemeManagerIdentifier issuerid of
        Inl p \<Rightarrow> Inl p
      | Inr mid \<Rightarrow>
     (case Name (SchemeManagerIdentifier_String mid) of
        Inl p \<Rightarrow> Inl p
      | Inr manager_name \<Rightarrow>
     (case Name (IssuerIdentifier_String issuerid) of
        Inl p \<Rightarrow> Inl p
      | Inr issuer_name \<Rightarrow>
     (case filepath_Glob lib
             (Path conf @ ''/'' @ manager_name @ ''/'' @ issuer_name @ ''/PublicKeys/*.xml'') of
        Inl err \<Rightarrow> Inr (conf, Some err)
      | Inr files \<Rightarrow> parse_key_files lib fs manager issuerid files conf))))"

text \<open>
  \<open>Configuration.PublicKey\<close>: the configuration afterwards, the key (nil when the
  counter is not in the issuer's map) and the error.
\<close>

definition PublicKey ::
  "library \<Rightarrow> filesystem \<Rightarrow> Configuration \<Rightarrow> IssuerIdentifier \<Rightarrow> int
     \<Rightarrow> panic + (Configuration \<times> PublicKey option \<times> error option)" where
  "PublicKey lib fs conf issid counter =
     (case map_of (publicKeys conf) issid of
        Some keys \<Rightarrow> Inr (conf, map_of keys counter, None)
      | None \<Rightarrow>
         (let conf1 = conf\<lparr>publicKeys := AList.update issid [] (publicKeys conf)\<rparr> in
          case IssuerIdentifier_SchemeManagerIdentifier issid of
            Inl p \<Rightarrow> Inl p
          | Inr mid \<Rightarrow>
             (case parseKeysFolder lib fs conf1 (map_of (SchemeManagers conf1) mid) issid of
                Inl p \<Rightarrow> Inl p
              | Inr (conf2, Some err) \<Rightarrow> Inr (conf2, None, Some err)
              | Inr (conf2, None) \<Rightarrow>
                  Inr (conf2,
                       (case map_of (publicKeys conf2) issid of
                          None \<Rightarrow> None
                        | Some keys \<Rightarrow> map_of keys counter),
                       None))))"

section \<open>What parsing the content of a manager may change\<close>

text \<open>
  The relation between the configuration before and after a step that registers
  issuers and credential types: the scheme managers, the disabled managers and the
  path are the same, and every identifier that was registered still is.
\<close>

definition only_adds :: "Configuration \<Rightarrow> Configuration \<Rightarrow> bool" where
  "only_adds conf conf' =
     (SchemeManagers conf' = SchemeManagers conf
      \<and> DisabledSchemeManagers conf' = DisabledSchemeManagers conf
      \<and> Path conf' = Path conf
      \<and> fst ` set (Issuers conf) \<subseteq> fst ` set (Issuers conf')
      \<and> fst ` set (CredentialTypes conf) \<subseteq> fst ` set (CredentialTypes conf'))"

text \<open>
  Every issuer and every credential type that is registered in \<open>conf\<close> is registered
  in \<open>conf'\<close>.
\<close>

definition still_registered :: "Configuration \<Rightarrow> Configuration \<Rightarrow> bool" where
  "still_registered conf conf' =
     (fst ` set (Issuers conf) \<subseteq> fst ` set (Issuers conf')
      \<and> fst ` set (CredentialTypes conf) \<subseteq> fst ` set (CredentialTypes conf'))"

text \<open>The zero values \<open>&Issuer{}\<close> and \<open>&CredentialType{}\<close> that the handlers decode into.\<close>

definition zero_Issuer :: Issuer where
  "zero_Issuer =
     \<lparr> i_Identifier = NewIssuerIdentifier [],
       i_SchemeManagerIdentifier = NewSchemeManagerIdentifier [],
       i_XMLVersion = 0, i_Valid = False \<rparr>"

definition zero_CredentialType :: CredentialType where
  "zero_CredentialType =
     \<lparr> c_Identifier = NewCredentialTypeIdentifier [],
       c_SchemeManagerIdentifier = NewSchemeManagerIdentifier [],
       c_XMLVersion = 0, c_Valid = False \<rparr>"

section \<open>What it means that a manager and its content are gone\<close>





section \<open>Example inputs\<close>

text \<open>
  Concrete inputs on which the theorems below are evaluated. The library of the
  examples is a stand-in: its hash pads or cuts to 32 bytes, its PEM decoder takes the
  bytes after five dashes, its ASN.1 decoder knows the one signature file
  \<open>example_sig\<close>, the DER encoding of \<open>SEQUENCE { 1, 2, 3 }\<close>, and its ECDSA
  accepts the pair \<open>(1, 2)\<close>.
\<close>

definition example_sig :: bytes where
  "example_sig = [CHR 0x30, CHR 0x09, CHR 0x02, CHR 0x01, CHR 0x01, CHR 0x02, CHR 0x01, CHR 0x02,
                  CHR 0x02, CHR 0x01, CHR 0x03]"

definition example_lib :: library where
  "example_lib =
     \<lparr> sha256_Sum256 = (\<lambda>b. take 32 (b @ replicate 32 (CHR 0x00))),
       base64_EncodeToString = (\<lambda>b. b),
       pem_Decode = (\<lambda>b. Inr (if take 5 b = ''-----'' then Some (drop 5 b) else None)),
       x509_ParsePKIXPublicKey = (\<lambda>b. Inr (Inr (ECDSAPublicKey b))),
       asn1_Unmarshal = (\<lambda>b. if b = example_sig then Inr ([1, 2, 3], [], None)
                               else Inr ([], b, Some (LibError ''asn1: syntax error''))),
       ecdsa_Verify = (\<lambda>pk h r s. Inr (r = 1 \<and> s = 2)),
       xml_Unmarshal_SchemeManager = (\<lambda>b m. (m, None)),
       xml_Unmarshal_Issuer = (\<lambda>b. (\<lparr> i_Identifier = NewIssuerIdentifier b,
           i_SchemeManagerIdentifier = NewSchemeManagerIdentifier b, i_XMLVersion = 4, i_Valid = False \<rparr>, None)),
       xml_Unmarshal_CredentialType = (\<lambda>b. (\<lparr> c_Identifier = NewCredentialTypeIdentifier b,
           c_SchemeManagerIdentifier = NewSchemeManagerIdentifier b, c_XMLVersion = 4, c_Valid = False \<rparr>, None)),
       gabi_NewPublicKeyFromBytes = (\<lambda>b. Inr \<lparr> pk_Issuer = [], pk_material = b \<rparr>),
       filepath_Glob = (\<lambda>p. Inr []),
       http_GetBytes = (\<lambda>u. Inl (LibError u)),
       issPattern_FindStringSubmatch = (\<lambda>f. []),
       credPattern_FindStringSubmatch = (\<lambda>f. []) \<rparr>"

definition example_conf :: Configuration where
  "example_conf =
     \<lparr> SchemeManagers = [], Issuers = [], CredentialTypes = [], Path = ''conf'',
       DisabledSchemeManagers = [], publicKeys = [], reverseHashes = [],
       initialized = False, assets = [] \<rparr>"

definition example_fs :: "bytes \<Rightarrow> bytes \<Rightarrow> filesystem" where
  "example_fs pem sig =
     [''conf/m/index'' \<mapsto> File ''00 m/description.xml'',
      ''conf/m/index.sig'' \<mapsto> File sig,
      ''conf/m/pk.pem'' \<mapsto> File pem]"

definition example_manager :: SchemeManager where
  "example_manager =
     (NewSchemeManager ''m'')
       \<lparr> m_index := [(''m/a'', sha256_Sum256 example_lib ''good''),
                     (''m/b'', sha256_Sum256 example_lib ''original'')] \<rparr>"

definition example_tree :: filesystem where
  "example_tree = [''conf/m/a'' \<mapsto> File ''good'', ''conf/m/b'' \<mapsto> File ''tampered'']"

text \<open>
  A remote for the manager \<open>m\<close> that serves a new index with a signature file the
  library does not accept, and a new version of the file \<open>a\<close>.
\<close>

definition example_update_lib :: library where
  "example_update_lib =
     example_lib\<lparr>http_GetBytes :=
       (\<lambda>u. if u = ''https://example.org/m/index'' then Inr ''11 m/description.xml''
            else if u = ''https://example.org/m/index.sig'' then Inr ''forged''
            else if u = ''https://example.org/m/a'' then Inr ''fresh''
            else Inl (LibError u))\<rparr>"

definition example_update_manager :: SchemeManager where
  "example_update_manager = example_manager\<lparr>m_URL := ''https://example.org/m''\<rparr>"

definition example_update_conf :: Configuration where
  "example_update_conf =
     example_conf\<lparr>SchemeManagers := [(NewSchemeManagerIdentifier ''m'', example_update_manager)]\<rparr>"

text \<open>An issuer with two key files, the second of which does not match the index.\<close>

definition example_keys_lib :: library where
  "example_keys_lib =
     example_lib\<lparr>filepath_Glob :=
       (\<lambda>p. if p = ''conf/m/i/PublicKeys/*.xml''
            then Inr [''conf/m/i/PublicKeys/1.xml'', ''conf/m/i/PublicKeys/2.xml'']
            else Inr [])\<rparr>"

definition example_keys_conf :: Configuration where
  "example_keys_conf =
     example_conf\<lparr>SchemeManagers :=
       [(NewSchemeManagerIdentifier ''m'',
         (NewSchemeManager ''m'')
           \<lparr>m_index := [(''m/i/PublicKeys/1.xml'', sha256_Sum256 example_lib ''key one''),
                        (''m/i/PublicKeys/2.xml'', sha256_Sum256 example_lib ''key two'')]\<rparr>)]\<rparr>"

definition example_keys_fs :: filesystem where
  "example_keys_fs =
     [''conf/m/i/PublicKeys/1.xml'' \<mapsto> File ''key one'',
      ''conf/m/i/PublicKeys/2.xml'' \<mapsto> File ''tampered'']"

text \<open>
  A configuration folder with two scheme managers. The signature of \<open>bad\<close> is not
  one the library accepts. The manager \<open>m\<close> verifies; its issuer \<open>a\<close> has one
  credential type, its issuer \<open>b\<close> has a description of version 3, which is not
  supported. The XML decoder of the example reads the version from the first byte and
  the identifier from the third byte on.
\<close>

definition example_version :: "bytes \<Rightarrow> int" where
  "example_version b = (case b of [] \<Rightarrow> 0 | c # _ \<Rightarrow> int (of_char c) - 48)"

definition example_parse_lib :: library where
  "example_parse_lib =
     example_lib\<lparr>
       xml_Unmarshal_SchemeManager := (\<lambda>b m. (m\<lparr>m_XMLVersion := example_version b\<rparr>, None)),
       xml_Unmarshal_Issuer :=
         (\<lambda>b. (\<lparr> i_Identifier = NewIssuerIdentifier (drop 2 b),
                  i_SchemeManagerIdentifier = NewSchemeManagerIdentifier ''m'',
                  i_XMLVersion = example_version b, i_Valid = False \<rparr>, None)),
       xml_Unmarshal_CredentialType :=
         (\<lambda>b. (\<lparr> c_Identifier = NewCredentialTypeIdentifier (drop 2 b),
                  c_SchemeManagerIdentifier = NewSchemeManagerIdentifier ''m'',
                  c_XMLVersion = example_version b, c_Valid = False \<rparr>, None)),
       filepath_Glob :=
         (\<lambda>p. if p = ''conf/*'' then Inr [''conf/bad'', ''conf/m'']
              else if p = ''conf/m/*''
              then Inr [''conf/m/a'', ''conf/m/b'', ''conf/m/description.xml'']
              else if p = ''conf/m/a/Issues//*'' then Inr [''conf/m/a/Issues/c'']
              else Inr [])\<rparr>"








text \<open>
  A manager \<open>m\<close> whose issuer \<open>a\<close> has two credential types: the description of
  \<open>c\<close> is accepted, that of \<open>d\<close> has the version 3, which is not supported.
  \<open>example_content_start\<close> is the configuration in which the walk over the issuer
  folders starts.
\<close>

definition example_content_index :: SchemeManagerIndex where
  "example_content_index =
     [(''m/a/Issues/c/description.xml'', sha256_Sum256 example_lib ''4 m/a/c''),
      (''m/a/Issues/d/description.xml'', sha256_Sum256 example_lib ''3 m/a/d''),
      (''m/a/description.xml'', sha256_Sum256 example_lib ''4 m/a''),
      (''m/description.xml'', sha256_Sum256 example_lib ''7 m'')]"

definition example_content_lib :: library where
  "example_content_lib =
     example_parse_lib\<lparr>filepath_Glob :=
       (\<lambda>p. if p = ''conf/m/*'' then Inr [''conf/m/a'', ''conf/m/description.xml'']
            else if p = ''conf/m/a/Issues//*''
            then Inr [''conf/m/a/Issues/c'', ''conf/m/a/Issues/d'']
            else Inr [])\<rparr>"

definition example_content_fs :: filesystem where
  "example_content_fs =
     [''conf/m'' \<mapsto> Dir,
      ''conf/m/description.xml'' \<mapsto> File ''7 m'',
      ''conf/m/index'' \<mapsto> File (String example_content_index),
      ''conf/m/index.sig'' \<mapsto> File example_sig,
      ''conf/m/pk.pem'' \<mapsto> File ''-----key'',
      ''conf/m/a'' \<mapsto> Dir,
      ''conf/m/a/description.xml'' \<mapsto> File ''4 m/a'',
      ''conf/m/a/Issues/c'' \<mapsto> Dir,
      ''conf/m/a/Issues/c/description.xml'' \<mapsto> File ''4 m/a/c'',
      ''conf/m/a/Issues/d'' \<mapsto> Dir,
      ''conf/m/a/Issues/d/description.xml'' \<mapsto> File ''3 m/a/d'']"

definition example_content_manager :: SchemeManager where
  "example_content_manager =
     (NewSchemeManager ''m'')\<lparr>m_index := example_content_index, m_XMLVersion := 7\<rparr>"

definition example_content_start :: Configuration where
  "example_content_start =
     store_manager
       (store_manager example_conf (Identifier (NewSchemeManager ''m'')) (NewSchemeManager ''m''))
       (Identifier (NewSchemeManager ''m'')) example_content_manager"

definition example_content_issuer :: Issuer where
  "example_content_issuer =
     \<lparr> i_Identifier = NewIssuerIdentifier ''m/a'',
       i_SchemeManagerIdentifier = NewSchemeManagerIdentifier ''m'',
       i_XMLVersion = 4, i_Valid = False \<rparr>"




section \<open>Properties of the identifier hierarchy\<close>

lemma LastIndex_absent: "c \<notin> set s \<Longrightarrow> LastIndex s c = - 1"
  by (induction s) (auto simp: Let_def)

lemma LastIndex_ge: "- 1 \<le> LastIndex s c"
  by (induction s) (auto simp: Let_def)

lemma LastIndex_append_sep:
  "c \<notin> set t \<Longrightarrow> LastIndex (s @ c # t) c = int (length s)"
  by (induction s) (auto simp: Let_def LastIndex_absent)

lemma Parent_no_separator:
  "CHR ''/'' \<notin> set s \<Longrightarrow> Parent s = Inl (RuntimeError ''slice bounds out of range'')"
  by (simp add: Parent_def slice_to_def LastIndex_absent)

lemma Parent_append:
  "CHR ''/'' \<notin> set t \<Longrightarrow> Parent (s @ CHR ''/'' # t) = Inr s"
  by (simp add: Parent_def slice_to_def LastIndex_append_sep)

lemma CredentialType_manager_slashes:
  assumes "CHR ''/'' \<notin> set i" "CHR ''/'' \<notin> set c"
  shows "CredentialType_manager (NewCredentialTypeIdentifier (m @ ''/'' @ i @ ''/'' @ c))
           = Inr (NewSchemeManagerIdentifier m)"
proof -
  have "Parent ((m @ ''/'' @ i) @ CHR ''/'' # c) = Inr (m @ ''/'' @ i)"
    using assms(2) by (rule Parent_append)
  moreover have "Parent (m @ CHR ''/'' # i) = Inr m"
    using assms(1) by (rule Parent_append)
  ultimately show ?thesis by (simp add: CredentialType_manager_def)
qed

text \<open>
  C9. The composition claimed for the identifier \<open>m.i.c\<close>: the identifier holds
  no \<open>/\<close>, \<open>LastIndex\<close> is -1, and the issuer derivation panics on the slice
  \<open>str[:-1]\<close> before any scheme manager identifier is made.
\<close>

theorem IssuerIdentifier_of_dotted_panics:
  "CredentialTypeIdentifier_IssuerIdentifier (NewCredentialTypeIdentifier ''m.i.c'')
     = Inl (RuntimeError ''slice bounds out of range'')
   \<and> CredentialType_manager (NewCredentialTypeIdentifier ''m.i.c'')
     \<noteq> Inr (NewSchemeManagerIdentifier ''m'')"
  by (simp add: CredentialType_manager_def Parent_def slice_to_def Let_def)


section \<open>The index survives serialisation\<close>


lemma hexdigit_table:
  "\<forall>n\<in>set [0..<16]. fromHexChar (hexdigit n) = Some n
      \<and> hexdigit n \<noteq> CHR '' '' \<and> hexdigit n \<noteq> CHR 0x0A"
  by code_simp

lemma fromHexChar_hexdigit: "n < 16 \<Longrightarrow> fromHexChar (hexdigit n) = Some n"
  using hexdigit_table by simp

lemma hexdigit_not_sep:
  "n < 16 \<Longrightarrow> CHR '' '' \<noteq> hexdigit n \<and> CHR 0x0A \<noteq> hexdigit n"
  using hexdigit_table by fastforce

lemma byte_of_nibbles: "char_of ((of_char b :: nat) div 16 * 16 + (of_char b :: nat) mod 16) = b"
  by simp

lemma of_char_div_16: "(of_char b :: nat) div 16 < 16"
proof -
  have "(of_char b :: nat) < 256" by simp
  then show ?thesis by arith
qed

lemma DecodeString_EncodeToString: "DecodeString (EncodeToString bs) = Inr bs"
  by (induction bs) (simp_all add: EncodeToString_def fromHexChar_hexdigit of_char_div_16)

lemma EncodeToString_no_sep:
  "CHR '' '' \<notin> set (EncodeToString bs) \<and> CHR 0x0A \<notin> set (EncodeToString bs)"
  by (induction bs) (simp_all add: EncodeToString_def hexdigit_not_sep of_char_div_16)

lemma Split_not_Nil: "Split s c \<noteq> []"
  by (induction s) (auto split: list.splits)

lemma Split_absent: "c \<notin> set s \<Longrightarrow> Split s c = [s]"
  by (induction s) auto

lemma Split_append_sep: "c \<notin> set a \<Longrightarrow> Split (a @ c # b) c = a # Split b c"
  by (induction a) auto

lemma Split_lines:
  "\<forall>l\<in>set ls. c \<notin> set l \<Longrightarrow> Split (concat (map (\<lambda>l. l @ [c]) ls)) c = ls @ [[]]"
  by (induction ls) (simp_all add: Split_append_sep)


lemma FromString_lines_index_lines:
  assumes "\<forall>p\<in>set ps. CHR '' '' \<notin> set p"
  shows "FromString_lines acc j (map (\<lambda>p. EncodeToString (h p) @ '' '' @ p) ps @ [[]])
           = (fold (\<lambda>p. AList.update p (h p)) ps acc, None)"
  using assms
proof (induction ps arbitrary: acc j)
  case Nil
  then show ?case by simp
next
  case (Cons p ps)
  have sp: "Split (EncodeToString (h p) @ CHR '' '' # p) CHR '' '' = [EncodeToString (h p), p]"
    using Cons.prems by (simp add: Split_append_sep Split_absent EncodeToString_no_sep)
  show ?case using Cons by (simp add: sp DecodeString_EncodeToString)
qed

lemma map_of_fold_update:
  "map_of (fold (\<lambda>p. AList.update p (h p)) ps acc) k
     = (if k \<in> set ps then Some (h k) else map_of acc k)"
  by (induction ps arbitrary: acc) (auto simp: update_conv')

lemma String_lines:
  "String i = concat (map (\<lambda>l. l @ [CHR 0x0A])
      (map (\<lambda>p. EncodeToString (index_get i p) @ '' '' @ p) (sort (remdups (map fst i)))))"
  by (simp add: String_def index_line_def [abs_def] comp_def)

lemma Split_no_sep: "l \<in> set (Split s c) \<Longrightarrow> c \<notin> set l"
  by (induction s arbitrary: l) (auto split: if_splits list.splits)

lemma Split_subset: "l \<in> set (Split s c) \<Longrightarrow> set l \<subseteq> set s"
  by (induction s arbitrary: l) (fastforce split: if_splits list.splits)+

lemma FromString_lines_keys:
  assumes "FromString_lines acc j ls = (i, e)"
    and "\<forall>p\<in>fst ` set acc. CHR '' '' \<notin> set p \<and> CHR 0x0A \<notin> set p"
    and "\<forall>l\<in>set ls. CHR 0x0A \<notin> set l"
  shows "\<forall>p\<in>fst ` set i. CHR '' '' \<notin> set p \<and> CHR 0x0A \<notin> set p"
  using assms
proof (induction ls arbitrary: acc j)
  case Nil
  then show ?case by simp
next
  case (Cons line lines)
  show ?case
  proof (cases "length line = 0")
    case True
    then show ?thesis using Cons.IH [of acc "Suc j"] Cons.prems by simp
  next
    case False
    show ?thesis
    proof (cases "\<exists>h p. Split line CHR '' '' = [h, p]")
      case True
      then obtain h p where sp: "Split line CHR '' '' = [h, p]" by blast
      have "p \<in> set (Split line CHR '' '')" using sp by simp
      then have clean: "CHR '' '' \<notin> set p \<and> CHR 0x0A \<notin> set p"
        using Split_no_sep [of p line "CHR '' ''"] Split_subset [of p line "CHR '' ''"] Cons.prems(3)
        by auto
      show ?thesis
      proof (cases "DecodeString h")
        case (Inl err)
        then show ?thesis using Cons.prems False sp by simp
      next
        case (Inr hash)
        have "\<forall>q\<in>fst ` set (AList.update p hash acc). CHR '' '' \<notin> set q \<and> CHR 0x0A \<notin> set q"
          using clean Cons.prems(2) by (simp add: dom_update)
        then show ?thesis
          using Cons.IH [of "AList.update p hash acc" "Suc j"] Cons.prems False sp Inr by simp
      qed
    next
      case no: False
      then have "FromString_lines acc j (line # lines) = (acc, Some (IndexLineError j))"
        using False by (auto split: list.splits)
      then show ?thesis using Cons.prems by simp
    qed
  qed
qed

lemma FromString_keys:
  assumes "FromString [] s = (i, e)"
  shows "\<forall>p\<in>fst ` set i. CHR '' '' \<notin> set p \<and> CHR 0x0A \<notin> set p"
  using FromString_lines_keys [OF assms [unfolded FromString_def]]
  by (simp add: Split_no_sep)

text \<open>
  C6, as amended. Parsing the serialisation of an index gives back the same map,
  without error, when no path of the index holds a space or a newline, the two
  separators of the format, and so in particular when the index is itself the
  result of parsing an index text. The hashes may be any bytes.
\<close>

theorem index_roundtrip:
  assumes "(\<forall>p\<in>fst ` set i. CHR '' '' \<notin> set p \<and> CHR 0x0A \<notin> set p)
    \<or> (\<exists>s. FromString [] s = (i, None))"
  shows "\<exists>i'. FromString [] (String i) = (i', None) \<and> map_of i' = map_of i"
proof -
  have clean: "\<forall>p\<in>fst ` set i. CHR '' '' \<notin> set p \<and> CHR 0x0A \<notin> set p"
    using assms FromString_keys by blast
  let ?ps = "sort (remdups (map fst i))"
  let ?ls = "map (\<lambda>p. EncodeToString (index_get i p) @ '' '' @ p) ?ps"
  have nl: "\<forall>l\<in>set ?ls. CHR 0x0A \<notin> set l"
    using clean by (auto simp: EncodeToString_no_sep)
  have sp: "\<forall>p\<in>set ?ps. CHR '' '' \<notin> set p"
    using clean by auto
  have "FromString [] (String i) = FromString_lines [] 0 (?ls @ [[]])"
    unfolding FromString_def String_lines using Split_lines [OF nl] by simp
  also have "\<dots> = (fold (\<lambda>p. AList.update p (index_get i p)) ?ps [], None)"
    by (rule FromString_lines_index_lines [OF sp])
  finally have run: "FromString [] (String i)
      = (fold (\<lambda>p. AList.update p (index_get i p)) ?ps [], None)" .
  have "map_of (fold (\<lambda>p. AList.update p (index_get i p)) ?ps []) k = map_of i k" for k
  proof (cases "map_of i k")
    case None
    then have "k \<notin> fst ` set i" by (simp add: map_of_eq_None_iff)
    then show ?thesis using None by (simp add: map_of_fold_update)
  next
    case (Some v)
    then have "k \<in> fst ` set i" by (force dest: map_of_SomeD)
    then show ?thesis using Some by (simp add: map_of_fold_update index_get_def)
  qed
  then show ?thesis using run by auto
qed

theorem index_roundtrip_witness:
  "\<exists>i'. FromString [] (String [(''irma-demo/RU/description.xml'', replicate 32 (CHR 0xAB)), (''irma-demo/description.xml'', replicate 32 (CHR 0x01))])
     = (i', None)
   \<and> map_of i' = map_of [(''irma-demo/RU/description.xml'', replicate 32 (CHR 0xAB)), (''irma-demo/description.xml'', replicate 32 (CHR 0x01))]"
  using index_roundtrip [of "[(''irma-demo/RU/description.xml'', replicate 32 (CHR 0xAB)), (''irma-demo/description.xml'', replicate 32 (CHR 0x01))]"]
  by simp


text \<open>
  C6, as stated, fails for an index with the path \<open>a b\<close>: its line splits into three
  parts and \<open>FromString\<close> rejects it.
\<close>

theorem index_roundtrip_counterexample:
  "FromString [] (String [(''a b'', replicate 32 (CHR 0x00))]) = ([], Some (IndexLineError 0))"
  by code_simp

section \<open>Signature verification\<close>

text \<open>
  C1. \<open>VerifySignature\<close> returns for every library, disk, configuration and
  manager: its result is never a panic. When its body panics (while decoding the key or
  the signature, or on \<open>pkblk.Bytes\<close> and \<open>ints[0]\<close>), the result is
  \<open>valid = false\<close> with an error.
\<close>

theorem VerifySignature_never_aborts:
  "\<exists>valid err. VerifySignature lib fs conf mid = Inr (valid, err)
     \<and> (\<forall>p. VerifySignature_body lib fs conf mid = Inl p \<longrightarrow> \<not> valid \<and> err \<noteq> None)"
proof (cases "VerifySignature_body lib fs conf mid")
  case (Inl p)
  then show ?thesis by (cases p) (auto simp: VerifySignature_def)
next
  case (Inr r)
  then show ?thesis by (cases r) (simp add: VerifySignature_def)
qed

lemma body_garbage_key:
  "VerifySignature_body example_lib (example_fs ''garbage'' example_sig) example_conf
      (NewSchemeManagerIdentifier ''m'')
    = Inl (RuntimeError ''invalid memory address or nil pointer dereference'')"
  by (simp add: VerifySignature_body_def example_lib_def example_fs_def example_conf_def Join_def
      PathExists_def ReadFile_def)

theorem VerifySignature_never_aborts_witness:
  "VerifySignature_body example_lib (example_fs ''garbage'' example_sig) example_conf
      (NewSchemeManagerIdentifier ''m'')
    = Inl (RuntimeError ''invalid memory address or nil pointer dereference'')
   \<and> (\<exists>err. VerifySignature example_lib (example_fs ''garbage'' example_sig) example_conf
      (NewSchemeManagerIdentifier ''m'') = Inr (False, Some err))"
  using VerifySignature_never_aborts [of example_lib "example_fs ''garbage'' example_sig"
      example_conf "NewSchemeManagerIdentifier ''m''"] body_garbage_key
  by auto

text \<open>
  C5, as amended. With the files in place and an ECDSA key, the verdict depends on the
  first two integers that \<open>asn1.Unmarshal\<close> decoded and on nothing else of the
  signature file: fewer than two integers give \<open>valid = false\<close> with an error
  (the recovered index panic); otherwise \<open>ecdsa.Verify\<close> decides on \<open>ints[0]\<close>
  and \<open>ints[1]\<close>, whatever further integers, trailing bytes or decoding error
  there are.
\<close>

theorem VerifySignature_first_two_integers:
  assumes "AssertPathExists fs [Join (Path conf) (SchemeManagerIdentifier_String mid) @ ''/index'',
             Join (Path conf) (SchemeManagerIdentifier_String mid) @ ''/index.sig'',
             Join (Path conf) (SchemeManagerIdentifier_String mid) @ ''/pk.pem''] = None"
    and "ReadFile fs (Join (Path conf) (SchemeManagerIdentifier_String mid) @ ''/index'') = Inr indexbts"
    and "ReadFile fs (Join (Path conf) (SchemeManagerIdentifier_String mid) @ ''/pk.pem'') = Inr pkbts"
    and "pem_Decode lib pkbts = Inr (Some blk)"
    and "x509_ParsePKIXPublicKey lib blk = Inr (Inr (ECDSAPublicKey pk))"
    and "ReadFile fs (Join (Path conf) (SchemeManagerIdentifier_String mid) @ ''/index.sig'') = Inr sig"
    and "asn1_Unmarshal lib sig = Inr (ints, rest, err)"
  shows "VerifySignature lib fs conf mid =
           (if length ints < 2
            then Inr (False, Some (Error
                   ''Scheme manager index signature failed to verify: index out of range''))
            else (case ecdsa_Verify lib pk (sha256_Sum256 lib indexbts) (ints ! 0) (ints ! 1) of
                    Inl p \<Rightarrow> Inr (recovered p)
                  | Inr valid \<Rightarrow> Inr (valid, None)))"
  using assms
  by (simp add: VerifySignature_def VerifySignature_body_def Let_def split: sum.splits)

lemma example_sig_files:
  "AssertPathExists (example_fs ''-----key'' example_sig)
     [Join (Path example_conf) (SchemeManagerIdentifier_String (NewSchemeManagerIdentifier ''m'')) @ ''/index'',
      Join (Path example_conf) (SchemeManagerIdentifier_String (NewSchemeManagerIdentifier ''m'')) @ ''/index.sig'',
      Join (Path example_conf) (SchemeManagerIdentifier_String (NewSchemeManagerIdentifier ''m'')) @ ''/pk.pem''] = None"
  "ReadFile (example_fs ''-----key'' example_sig)
     (Join (Path example_conf) (SchemeManagerIdentifier_String (NewSchemeManagerIdentifier ''m'')) @ ''/index'')
     = Inr ''00 m/description.xml''"
  "ReadFile (example_fs ''-----key'' example_sig)
     (Join (Path example_conf) (SchemeManagerIdentifier_String (NewSchemeManagerIdentifier ''m'')) @ ''/pk.pem'')
     = Inr ''-----key''"
  "pem_Decode example_lib ''-----key'' = Inr (Some ''key'')"
  "x509_ParsePKIXPublicKey example_lib ''key'' = Inr (Inr (ECDSAPublicKey ''key''))"
  "ReadFile (example_fs ''-----key'' example_sig)
     (Join (Path example_conf) (SchemeManagerIdentifier_String (NewSchemeManagerIdentifier ''m'')) @ ''/index.sig'')
     = Inr example_sig"
  "asn1_Unmarshal example_lib example_sig = Inr ([1, 2, 3], [], None)"
  by (simp_all add: example_fs_def example_conf_def example_lib_def Join_def PathExists_def
      ReadFile_def)

theorem VerifySignature_first_two_integers_witness:
  "VerifySignature example_lib (example_fs ''-----key'' example_sig) example_conf
     (NewSchemeManagerIdentifier ''m'') = Inr (True, None)"
  using VerifySignature_first_two_integers [OF example_sig_files]
  by (simp add: example_lib_def)

text \<open>
  C5, as stated, fails: the signature file \<open>example_sig\<close> decodes to the three
  integers 1, 2, 3 and is accepted.
\<close>

theorem VerifySignature_exactly_two_counterexample:
  "asn1_Unmarshal example_lib example_sig = Inr ([1, 2, 3], [], None)
   \<and> ReadFile (example_fs ''-----key'' example_sig) ''conf/m/index.sig'' = Inr example_sig
   \<and> VerifySignature example_lib (example_fs ''-----key'' example_sig) example_conf
        (NewSchemeManagerIdentifier ''m'') = Inr (True, None)"
  by (simp add: VerifySignature_def VerifySignature_body_def example_fs_def example_conf_def
      example_lib_def Join_def PathExists_def ReadFile_def)

section \<open>Authenticated reads\<close>

text \<open>
  C2. \<open>ReadAuthenticatedFile\<close>: a path that is not a key of the index gives no
  bytes, \<open>found = false\<close> and no error; a path of the index whose file hashes to
  another value gives the mismatch error with \<open>found = true\<close>; a path of the
  index whose file hashes to the entry gives the bytes, \<open>found = true\<close> and no
  error. Every result has one of these three shapes, and \<open>found\<close> is false exactly
  for the paths that are not in the index.
\<close>

theorem ReadAuthenticatedFile_outcomes:
  fixes lib fs conf manager path
  defines "r \<equiv> ReadAuthenticatedFile lib fs conf manager path"
  shows "(map_of (m_index manager) path = None \<longrightarrow> r = (None, False, None))
    \<and> (\<forall>signedHash bts. map_of (m_index manager) path = Some signedHash
          \<and> ReadFile fs (Join (Path conf) path) = Inr bts
          \<and> sha256_Sum256 lib bts \<noteq> signedHash
        \<longrightarrow> r = (None, True,
              Some (Error (''Hash of '' @ path @ '' does not match scheme manager index''))))
    \<and> (\<forall>signedHash bts. map_of (m_index manager) path = Some signedHash
          \<and> ReadFile fs (Join (Path conf) path) = Inr bts
          \<and> sha256_Sum256 lib bts = signedHash
        \<longrightarrow> r = (Some bts, True, None))
    \<and> (r = (None, False, None) \<or> (\<exists>err. r = (None, True, Some err))
          \<or> (\<exists>bts. r = (Some bts, True, None)))
    \<and> (fst (snd r) \<longleftrightarrow> map_of (m_index manager) path \<noteq> None)"
  unfolding r_def ReadAuthenticatedFile_def
  by (auto split: option.splits sum.splits)

theorem ReadAuthenticatedFile_outcomes_witness:
  "ReadAuthenticatedFile example_lib example_tree example_conf example_manager ''m/c''
     = (None, False, None)
   \<and> ReadAuthenticatedFile example_lib example_tree example_conf example_manager ''m/b''
     = (None, True, Some (Error ''Hash of m/b does not match scheme manager index''))
   \<and> ReadAuthenticatedFile example_lib example_tree example_conf example_manager ''m/a''
     = (Some ''good'', True, None)"
proof -
  have idx: "map_of (m_index example_manager) ''m/c'' = None"
    "map_of (m_index example_manager) ''m/b'' = Some (sha256_Sum256 example_lib ''original'')"
    "map_of (m_index example_manager) ''m/a'' = Some (sha256_Sum256 example_lib ''good'')"
    by (simp_all add: example_manager_def NewSchemeManager_def)
  have rd: "ReadFile example_tree (Join (Path example_conf) ''m/b'') = Inr ''tampered''"
    "ReadFile example_tree (Join (Path example_conf) ''m/a'') = Inr ''good''"
    by (simp_all add: ReadFile_def example_tree_def example_conf_def Join_def)
  have ne: "sha256_Sum256 example_lib ''tampered'' \<noteq> sha256_Sum256 example_lib ''original''"
    by (simp add: example_lib_def)
  show ?thesis
    using ReadAuthenticatedFile_outcomes [of example_manager "''m/c''" example_lib example_tree example_conf]
      ReadAuthenticatedFile_outcomes [of example_manager "''m/b''" example_lib example_tree example_conf]
      ReadAuthenticatedFile_outcomes [of example_manager "''m/a''" example_lib example_tree example_conf]
      idx rd ne
    by simp
qed

section \<open>Backup and restore of the index and its signature\<close>

lemma VerifySignature_returns: "\<exists>valid err. VerifySignature lib fs conf mid = Inr (valid, err)"
  by (cases "VerifySignature_body lib fs conf mid") (auto simp: VerifySignature_def)

lemma backup_ok:
  assumes "fs index = Some (File a)" "fs sig = Some (File b)"
    and "fs (index @ ''.backup'') \<noteq> Some Dir" "fs (index @ ''.backup'') \<noteq> Some Inaccessible"
    and "fs (sig @ ''.backup'') \<noteq> Some Dir" "fs (sig @ ''.backup'') \<noteq> Some Inaccessible"
    and "sig \<noteq> index @ ''.backup''" "index \<noteq> sig"
  shows "backupManagerSignature fs index sig
           = (fs(index @ ''.backup'' \<mapsto> File a, sig @ ''.backup'' \<mapsto> File b), None)"
  using assms
  by (auto simp: backupManagerSignature_def Copy_def ReadFile_def SaveFile_def
      split: option.splits node.splits)

lemma restore_ok:
  assumes "fs (index @ ''.backup'') = Some (File a)" "fs (sig @ ''.backup'') = Some (File b)"
    and "fs index \<noteq> Some Dir" "fs index \<noteq> Some Inaccessible"
    and "fs sig \<noteq> Some Dir" "fs sig \<noteq> Some Inaccessible"
    and "index \<noteq> sig @ ''.backup''" "index \<noteq> sig"
  shows "restoreManagerSignature fs index sig = (fs(index \<mapsto> File a, sig \<mapsto> File b), None)"
  using assms
  by (auto simp: restoreManagerSignature_def Copy_def ReadFile_def SaveFile_def
      split: option.splits node.splits)

lemma SaveFile_frame:
  "SaveFile fs dest bts = (fs', e) \<Longrightarrow>
     (\<forall>p. p \<noteq> dest \<longrightarrow> fs' p = fs p) \<and> (fs' dest = fs dest \<or> fs' dest = Some (File bts))"
  by (auto simp: SaveFile_def split: option.splits node.splits)

lemma GetFile_frame:
  "GetFile lib server url dest fs = (fs', e) \<Longrightarrow>
     (\<forall>p. p \<noteq> dest \<longrightarrow> fs' p = fs p) \<and> (fs' dest = fs dest \<or> (\<exists>b. fs' dest = Some (File b)))"
  by (auto simp: GetFile_def split: sum.splits dest: SaveFile_frame)

lemma download_and_verify_frame:
  assumes "download_and_verify lib fs conf manager index sig = Inr (fs', e)"
  shows "(\<forall>p. p \<noteq> index \<and> p \<noteq> sig \<longrightarrow> fs' p = fs p)
       \<and> (fs' index = fs index \<or> (\<exists>b. fs' index = Some (File b)))
       \<and> (fs' sig = fs sig \<or> (\<exists>b. fs' sig = Some (File b)))"
proof -
  obtain fs1 e1 where g1: "GetFile lib (m_URL manager) ''index'' index fs = (fs1, e1)"
    by (cases "GetFile lib (m_URL manager) ''index'' index fs") auto
  note f1 = GetFile_frame [OF g1]
  show ?thesis
  proof (cases e1)
    case (Some err)
    then have "fs' = fs1" using assms g1 by (simp add: download_and_verify_def)
    then show ?thesis using f1 by (cases "index = sig") auto
  next
    case None
    obtain fs2 e2 where g2: "GetFile lib (m_URL manager) ''index.sig'' sig fs1 = (fs2, e2)"
      by (cases "GetFile lib (m_URL manager) ''index.sig'' sig fs1") auto
    note f2 = GetFile_frame [OF g2]
    have "fs' = fs2"
      using assms g1 g2 None
      by (auto simp: download_and_verify_def split: option.splits sum.splits if_splits)
    then show ?thesis using f1 f2 by (cases "index = sig") auto
  qed
qed

lemmas example_update_defs =
  example_update_lib_def example_update_manager_def example_update_conf_def example_lib_def
  example_manager_def example_conf_def example_fs_def NewSchemeManager_def Identifier_def

text \<open>
  C4, as amended. When the manager is known, the local index and signature are files,
  both downloads succeed and the downloaded pair does not verify, then
  \<open>UpdateSchemeManager\<close> returns an error and leaves the configuration as it was;
  on disk \<open>index\<close> and \<open>index.sig\<close> hold their old bytes again, the two backup
  files \<open>index.backup\<close> and \<open>index.sig.backup\<close> hold them too, and every other path
  is untouched.
\<close>

theorem UpdateSchemeManager_bad_signature_restores:
  fixes lib fs conf mid manager downloaded
  defines "index \<equiv> Join (Path conf @ ''/'' @ m_ID manager) ''index''"
      and "sig \<equiv> Join (Path conf @ ''/'' @ m_ID manager) ''index.sig''"
  assumes mgr: "map_of (SchemeManagers conf) mid = Some manager"
    and local: "fs index = Some (File old_index)" "fs sig = Some (File old_sig)"
    and bk: "fs (index @ ''.backup'') \<notin> {Some Dir, Some Inaccessible}"
            "fs (sig @ ''.backup'') \<notin> {Some Dir, Some Inaccessible}"
    and dl: "http_GetBytes lib (transport_url (m_URL manager) ''index'') = Inr new_index"
            "http_GetBytes lib (transport_url (m_URL manager) ''index.sig'') = Inr new_sig"
    and bad: "VerifySignature lib
                (fs(index @ ''.backup'' \<mapsto> File old_index, sig @ ''.backup'' \<mapsto> File old_sig,
                    index \<mapsto> File new_index, sig \<mapsto> File new_sig))
                conf (Identifier manager) \<noteq> Inr (True, None)"
  shows "\<exists>fs' err. UpdateSchemeManager lib fs conf mid downloaded
                     = Inr (fs', conf, downloaded, [], Some err)
           \<and> fs' index = Some (File old_index) \<and> fs' sig = Some (File old_sig)
           \<and> fs' (index @ ''.backup'') = Some (File old_index)
           \<and> fs' (sig @ ''.backup'') = Some (File old_sig)
           \<and> (\<forall>p. p \<noteq> index @ ''.backup'' \<and> p \<noteq> sig @ ''.backup'' \<longrightarrow> fs' p = fs p)"
proof -
  let ?ib = "index @ ''.backup''" and ?sb = "sig @ ''.backup''"
  have ne: "index \<noteq> sig" "sig \<noteq> ?ib" "index \<noteq> ?sb" "?ib \<noteq> ?sb" "index \<noteq> ?ib" "sig \<noteq> ?sb"
    by (simp_all add: index_def sig_def Join_def)
  let ?fs1 = "fs(?ib \<mapsto> File old_index, ?sb \<mapsto> File old_sig)"
  have b: "backupManagerSignature fs index sig = (?fs1, None)"
    using local bk ne by (intro backup_ok) auto
  let ?fs3 = "?fs1(index \<mapsto> File new_index, sig \<mapsto> File new_sig)"
  have g1: "GetFile lib (m_URL manager) ''index'' index ?fs1 = (?fs1(index \<mapsto> File new_index), None)"
    using dl(1) local ne by (simp add: GetFile_def SaveFile_def)
  have g2: "GetFile lib (m_URL manager) ''index.sig'' sig (?fs1(index \<mapsto> File new_index))
              = (?fs3, None)"
    using dl(2) local ne by (simp add: GetFile_def SaveFile_def)
  obtain valid verr where v: "VerifySignature lib ?fs3 conf (Identifier manager) = Inr (valid, verr)"
    using VerifySignature_returns by blast
  with bad have nv: "\<not> (valid \<and> verr = None)" by auto
  then obtain err where d: "download_and_verify lib ?fs1 conf manager index sig = Inr (?fs3, Some err)"
    using g1 g2 v by (cases verr) (auto simp: download_and_verify_def)
  let ?fs' = "?fs3(index \<mapsto> File old_index, sig \<mapsto> File old_sig)"
  have r: "restoreManagerSignature ?fs3 index sig = (?fs', None)"
    using ne by (intro restore_ok) auto
  have "DownloadSchemeManagerSignature lib fs conf manager = Inr (?fs', Some err)"
    using b d r unfolding index_def sig_def
    by (simp add: DownloadSchemeManagerSignature_def Let_def)
  then have "UpdateSchemeManager lib fs conf mid downloaded = Inr (?fs', conf, downloaded, [], Some err)"
    using mgr by (simp add: UpdateSchemeManager_def)
  moreover have "?fs' index = Some (File old_index)" "?fs' sig = Some (File old_sig)"
    "?fs' ?ib = Some (File old_index)" "?fs' ?sb = Some (File old_sig)"
    using ne by auto
  moreover have "\<forall>p. p \<noteq> ?ib \<and> p \<noteq> ?sb \<longrightarrow> ?fs' p = fs p"
    using local by auto
  ultimately show ?thesis by blast
qed

theorem UpdateSchemeManager_bad_signature_restores_witness:
  "\<exists>fs' err. UpdateSchemeManager example_update_lib (example_fs ''-----key'' example_sig)
       example_update_conf (NewSchemeManagerIdentifier ''m'') None
     = Inr (fs', example_update_conf, None, [], Some err)
   \<and> fs' ''conf/m/index'' = Some (File ''00 m/description.xml'')
   \<and> fs' ''conf/m/index.sig'' = Some (File example_sig)"
proof -
  let ?fs = "example_fs ''-----key'' example_sig"
  have p: "Join (Path example_update_conf @ ''/'' @ m_ID example_update_manager) ''index''
             = ''conf/m/index''"
    "Join (Path example_update_conf @ ''/'' @ m_ID example_update_manager) ''index.sig''
             = ''conf/m/index.sig''"
    by (simp_all add: example_update_defs Join_def)
  have h1: "map_of (SchemeManagers example_update_conf) (NewSchemeManagerIdentifier ''m'')
              = Some example_update_manager"
    by (simp add: example_update_conf_def)
  have h2: "?fs ''conf/m/index'' = Some (File ''00 m/description.xml'')"
    "?fs ''conf/m/index.sig'' = Some (File example_sig)"
    by (simp_all add: example_fs_def)
  have h3: "?fs (''conf/m/index'' @ ''.backup'') \<notin> {Some Dir, Some Inaccessible}"
    "?fs (''conf/m/index.sig'' @ ''.backup'') \<notin> {Some Dir, Some Inaccessible}"
    by (simp_all add: example_fs_def)
  have h4: "http_GetBytes example_update_lib (transport_url (m_URL example_update_manager) ''index'')
              = Inr ''11 m/description.xml''"
    "http_GetBytes example_update_lib (transport_url (m_URL example_update_manager) ''index.sig'')
              = Inr ''forged''"
    by (simp_all add: example_update_defs transport_url_def)
  have h5: "VerifySignature example_update_lib
      (?fs(''conf/m/index'' @ ''.backup'' \<mapsto> File ''00 m/description.xml'',
           ''conf/m/index.sig'' @ ''.backup'' \<mapsto> File example_sig,
           ''conf/m/index'' \<mapsto> File ''11 m/description.xml'',
           ''conf/m/index.sig'' \<mapsto> File ''forged''))
      example_update_conf (Identifier example_update_manager) \<noteq> Inr (True, None)"
    by (simp add: VerifySignature_def VerifySignature_body_def example_update_defs Join_def
        PathExists_def ReadFile_def example_sig_def)
  show ?thesis
    using UpdateSchemeManager_bad_signature_restores [of example_update_conf
        "NewSchemeManagerIdentifier ''m''" example_update_manager ?fs
        "''00 m/description.xml''" example_sig example_update_lib
        "''11 m/description.xml''" "''forged''" None, unfolded p, OF h1 h2 h3 h4 h5]
    by blast
qed

text \<open>
  C4, as stated, says that the state on disk is unchanged. It is not: the backup file
  \<open>index.backup\<close>, absent before the call, is there afterwards.
\<close>

theorem UpdateSchemeManager_disk_unchanged_counterexample:
  "\<exists>fs' err. UpdateSchemeManager example_update_lib (example_fs ''-----key'' example_sig)
       example_update_conf (NewSchemeManagerIdentifier ''m'') None
     = Inr (fs', example_update_conf, None, [], Some err)
   \<and> (example_fs ''-----key'' example_sig) ''conf/m/index.backup'' = None
   \<and> fs' ''conf/m/index.backup'' = Some (File ''00 m/description.xml'')"
  by (simp add: UpdateSchemeManager_def DownloadSchemeManagerSignature_def
      backupManagerSignature_def restoreManagerSignature_def download_and_verify_def
      Copy_def GetFile_def SaveFile_def transport_url_def
      VerifySignature_def VerifySignature_body_def example_update_defs Join_def
      PathExists_def ReadFile_def example_sig_def)

section \<open>The loop that fetches changed files\<close>





















section \<open>The cache of public keys after a failed load\<close>

lemma parse_key_files_keeps_cache:
  "parse_key_files lib fs manager issid files conf = Inr (conf', e) \<Longrightarrow>
   map_of (publicKeys conf) k \<noteq> None \<Longrightarrow> map_of (publicKeys conf') k \<noteq> None"
proof (induction files arbitrary: conf)
  case Nil
  then show ?case by simp
next
  case (Cons f rest)
  show ?case
  proof (cases manager)
    case None
    with Cons.prems Cons.IH show ?thesis
      by (auto simp: Let_def split: sum.splits)
  next
    case (Some m)
    note ih = Cons.IH [unfolded Some]
    show ?thesis
      using Cons.prems unfolding Some
      by (auto simp: Let_def update_conv' split: sum.splits option.splits if_splits prod.splits
          dest!: ih)
  qed
qed

lemma parseKeysFolder_keeps_cache:
  "parseKeysFolder lib fs conf manager issid = Inr (conf', e) \<Longrightarrow>
   map_of (publicKeys conf) k \<noteq> None \<Longrightarrow> map_of (publicKeys conf') k \<noteq> None"
  by (auto simp: parseKeysFolder_def split: sum.splits dest: parse_key_files_keeps_cache)

text \<open>
  C10, as amended. When \<open>PublicKey\<close> returns an error, it returns no key, the
  issuer has an entry in the cache afterwards, and every later call for that issuer,
  whatever the disk and the counter, changes nothing, reports no error and returns what
  that entry holds for the counter: the keys folder is not parsed again.
\<close>

theorem PublicKey_failure_is_cached:
  assumes "PublicKey lib fs conf issid counter = Inr (conf', key, Some err)"
  shows "key = None
    \<and> (\<exists>keys. map_of (publicKeys conf') issid = Some keys
         \<and> (\<forall>lib' fs' counter'.
               PublicKey lib' fs' conf' issid counter' = Inr (conf', map_of keys counter', None)))"
proof -
  from assms have absent: "map_of (publicKeys conf) issid = None"
    by (auto simp: PublicKey_def split: option.splits)
  let ?conf1 = "conf\<lparr>publicKeys := AList.update issid [] (publicKeys conf)\<rparr>"
  from assms absent obtain mid where
    p: "parseKeysFolder lib fs ?conf1 (map_of (SchemeManagers ?conf1) mid) issid = Inr (conf', Some err)"
    and k: "key = None"
    by (auto simp: PublicKey_def Let_def split: sum.splits option.splits prod.splits)
  have "map_of (publicKeys ?conf1) issid \<noteq> None" by (simp add: update_conv')
  from parseKeysFolder_keeps_cache [OF p this]
  obtain keys where c: "map_of (publicKeys conf') issid = Some keys" by auto
  then have "PublicKey lib' fs' conf' issid counter' = Inr (conf', map_of keys counter', None)"
    for lib' fs' counter'
    by (simp add: PublicKey_def)
  with k c show ?thesis by blast
qed

theorem PublicKey_failure_is_cached_witness:
  "\<exists>conf' err keys.
     PublicKey example_keys_lib example_keys_fs example_keys_conf (NewIssuerIdentifier ''m/i'') 2
       = Inr (conf', None, Some err)
   \<and> map_of (publicKeys conf') (NewIssuerIdentifier ''m/i'') = Some keys
   \<and> PublicKey example_keys_lib Map.empty conf' (NewIssuerIdentifier ''m/i'') 2
       = Inr (conf', map_of keys 2, None)"
proof -
  have "\<exists>conf' err.
     PublicKey example_keys_lib example_keys_fs example_keys_conf (NewIssuerIdentifier ''m/i'') 2
       = Inr (conf', None, Some err)"
    by (simp add: PublicKey_def parseKeysFolder_def Parent_def Name_def slice_to_def slice_from_def
      Let_def example_keys_lib_def example_keys_conf_def example_keys_fs_def example_lib_def
      example_conf_def NewSchemeManager_def Base_def relativePath_def Atoi_def is_digit_def
      ReadAuthenticatedFile_def ReadFile_def Join_def)
  then obtain conf' err where
    f: "PublicKey example_keys_lib example_keys_fs example_keys_conf (NewIssuerIdentifier ''m/i'') 2
          = Inr (conf', None, Some err)"
    by blast
  from PublicKey_failure_is_cached [OF f] f show ?thesis by blast
qed

text \<open>
  C10, as stated, has the later calls return a nil key. They need not: the first key
  file of the issuer \<open>m/i\<close> is read before the second one fails, so the call for
  counter 1 fails, and the same call made again returns the key.
\<close>

theorem PublicKey_nil_after_failure_counterexample:
  "\<exists>conf' err pk.
     PublicKey example_keys_lib example_keys_fs example_keys_conf (NewIssuerIdentifier ''m/i'') 1
       = Inr (conf', None, Some err)
   \<and> PublicKey example_keys_lib example_keys_fs conf' (NewIssuerIdentifier ''m/i'') 1
       = Inr (conf', Some pk, None)"
  by (simp add: PublicKey_def parseKeysFolder_def Parent_def Name_def slice_to_def slice_from_def
      Let_def example_keys_lib_def example_keys_conf_def example_keys_fs_def example_lib_def
      example_conf_def NewSchemeManager_def Base_def relativePath_def Atoi_def is_digit_def
      ReadAuthenticatedFile_def ReadFile_def Join_def)

section \<open>Parsing issuers and credential types only adds\<close>

lemma only_adds_refl: "only_adds c c"
  by (simp add: only_adds_def)

lemma only_adds_trans:
  assumes "only_adds a b" "only_adds b c"
  shows "only_adds a c"
proof -
  from assms have i: "fst ` set (Issuers a) \<subseteq> fst ` set (Issuers b)"
    "fst ` set (Issuers b) \<subseteq> fst ` set (Issuers c)"
    and ct: "fst ` set (CredentialTypes a) \<subseteq> fst ` set (CredentialTypes b)"
    "fst ` set (CredentialTypes b) \<subseteq> fst ` set (CredentialTypes c)"
    by (simp_all add: only_adds_def)
  have "fst ` set (Issuers a) \<subseteq> fst ` set (Issuers c)"
    using i by (rule subset_trans)
  moreover have "fst ` set (CredentialTypes a) \<subseteq> fst ` set (CredentialTypes c)"
    using ct by (rule subset_trans)
  ultimately show ?thesis using assms by (simp add: only_adds_def)
qed

lemma iterate_dirs_rel:
  assumes step: "\<And>dir s s' e. handler dir s = Inr (s', e) \<Longrightarrow> R s s'"
    and refl: "\<And>s. R s s"
    and trans: "\<And>a b c. R a b \<Longrightarrow> R b c \<Longrightarrow> R a c"
  shows "iterate_dirs handler fs dirs s = Inr (s', e) \<Longrightarrow> R s s'"
proof (induction dirs arbitrary: s)
  case Nil
  then show ?case using refl by simp
next
  case (Cons d ds)
  show ?case
  proof (cases "Stat fs d")
    case (Inl err)
    with Cons.prems show ?thesis using refl by simp
  next
    case (Inr isDir)
    show ?thesis
    proof (cases "\<not> isDir \<or> HasSuffix d ''/.git''")
      case True
      with Cons.prems Inr have "iterate_dirs handler fs ds s = Inr (s', e)"
        by (auto split: if_splits)
      then show ?thesis by (rule Cons.IH)
    next
      case False
      show ?thesis
      proof (cases "handler d s")
        case (Inl p)
        with Cons.prems Inr False show ?thesis by simp
      next
        case hr: (Inr r)
        obtain s1 e1 where r: "r = (s1, e1)" by (cases r)
        have r1: "R s s1" using hr r step by blast
        show ?thesis
        proof (cases e1)
          case None
          with Cons.prems Inr False hr r have "iterate_dirs handler fs ds s1 = Inr (s', e)" by simp
          then have "R s1 s'" by (rule Cons.IH)
          with r1 show ?thesis using trans by blast
        next
          case (Some err)
          with Cons.prems Inr False hr r have "s' = s1" by simp
          with r1 show ?thesis by simp
        qed
      qed
    qed
  qed
qed

lemma iterateSubfolders_rel:
  assumes "\<And>dir s s' e. handler dir s = Inr (s', e) \<Longrightarrow> R s s'"
    and "\<And>s. R s s"
    and "\<And>a b c. R a b \<Longrightarrow> R b c \<Longrightarrow> R a c"
    and "iterateSubfolders lib fs path handler s = Inr (s', e)"
  shows "R s s'"
proof (cases "filepath_Glob lib (path @ ''/*'')")
  case (Inl err)
  with assms(4) show ?thesis using assms(2) by (simp add: iterateSubfolders_def)
next
  case (Inr dirs)
  with assms(4) have "iterate_dirs handler fs dirs s = Inr (s', e)"
    by (simp add: iterateSubfolders_def)
  then show ?thesis using iterate_dirs_rel [of handler R] assms(1-3) by blast
qed

lemma in_fst_image: "(a, b) \<in> set xs \<Longrightarrow> a \<in> fst ` set xs"
  by force

lemma credential_handler_only_adds:
  "credential_handler lib fs manager dir conf = Inr (conf', e) \<Longrightarrow> only_adds conf conf'"
  by (auto simp: credential_handler_def only_adds_def addReverseHash_def Let_def dom_update
      split: sum.splits option.splits if_splits prod.splits dest: in_fst_image)

lemma parseCredentialsFolder_only_adds:
  assumes "parseCredentialsFolder lib fs conf manager path = Inr (conf', e)"
  shows "only_adds conf conf'"
proof (rule iterateSubfolders_rel [where R = only_adds])
  show "iterateSubfolders lib fs path (credential_handler lib fs manager) conf = Inr (conf', e)"
    using assms by (simp add: parseCredentialsFolder_def)
next
  fix d s s' e1
  assume "credential_handler lib fs manager d s = Inr (s', e1)"
  then show "only_adds s s'" by (rule credential_handler_only_adds)
next
  fix s show "only_adds s s" by (rule only_adds_refl)
next
  fix a b c assume "only_adds a b" "only_adds b c"
  then show "only_adds a c" by (rule only_adds_trans)
qed

lemma issuer_handler_only_adds:
  assumes "issuer_handler lib fs manager dir conf = Inr (conf', e)"
  shows "only_adds conf conf'"
proof (cases "conf' = conf")
  case True
  then show ?thesis by (simp add: only_adds_refl)
next
  case False
  with assms obtain k v where
    added: "parseCredentialsFolder lib fs (conf\<lparr>Issuers := AList.update k v (Issuers conf)\<rparr>)
              manager (dir @ ''/Issues/'') = Inr (conf', e)"
    by (auto simp: issuer_handler_def
        split: sum.splits option.splits if_splits prod.splits)
  have "only_adds conf (conf\<lparr>Issuers := AList.update k v (Issuers conf)\<rparr>)"
    by (auto simp: only_adds_def dom_update)
  then show ?thesis
    using parseCredentialsFolder_only_adds [OF added] by (rule only_adds_trans)
qed


section \<open>A failure in the content of a manager\<close>

lemma iterate_dirs_append:
  "iterate_dirs handler fs (ds1 @ ds2) s =
     (case iterate_dirs handler fs ds1 s of
        Inl p \<Rightarrow> Inl p
      | Inr (s1, Some err) \<Rightarrow> Inr (s1, Some err)
      | Inr (s1, None) \<Rightarrow> iterate_dirs handler fs ds2 s1)"
  by (induction ds1 arbitrary: s) (auto split: sum.splits option.splits prod.splits)

lemma only_adds_still_registered: "only_adds c c' \<Longrightarrow> still_registered c c'"
  by (simp add: only_adds_def still_registered_def)

lemma iterate_dirs_only_adds:
  assumes step: "\<And>d s s' e. handler d s = Inr (s', e) \<Longrightarrow> only_adds s s'"
    and run: "iterate_dirs handler fs ds s = Inr (s', e)"
  shows "only_adds s s'"
proof (rule iterate_dirs_rel [where R = only_adds, OF _ _ _ run])
  fix d s s' e1
  assume "handler d s = Inr (s', e1)"
  then show "only_adds s s'" by (rule step)
next
  fix s show "only_adds s s" by (rule only_adds_refl)
next
  fix a b c assume "only_adds a b" "only_adds b c"
  then show "only_adds a c" by (rule only_adds_trans)
qed

lemma iterate_dirs_visit:
  assumes "Stat fs d = Inr True" "\<not> HasSuffix d ''/.git''"
    and "iterate_dirs handler fs (d # ds) s = Inr (s', e)"
  shows "\<exists>s1 e1. handler d s = Inr (s1, e1)
           \<and> (case e1 of Some err \<Rightarrow> s' = s1 \<and> e = Some err
                        | None \<Rightarrow> iterate_dirs handler fs ds s1 = Inr (s', e))"
proof (cases "handler d s")
  case (Inl p)
  with assms show ?thesis by simp
next
  case (Inr r)
  obtain s1 e1 where r: "r = (s1, e1)" by (cases r)
  show ?thesis
  proof (cases e1)
    case None
    with assms Inr r show ?thesis by simp
  next
    case (Some err)
    with assms Inr r show ?thesis by auto
  qed
qed

lemma iterate_dirs_visit_only_adds:
  assumes step: "\<And>d s s' e. handler d s = Inr (s', e) \<Longrightarrow> only_adds s s'"
    and v: "Stat fs d = Inr True" "\<not> HasSuffix d ''/.git''"
    and run: "iterate_dirs handler fs (d # ds) s = Inr (s', e)"
  shows "\<exists>s1 e1. handler d s = Inr (s1, e1) \<and> only_adds s1 s'"
proof -
  from iterate_dirs_visit [OF v run] obtain s1 e1 where
    h: "handler d s = Inr (s1, e1)"
    and c: "case e1 of Some err \<Rightarrow> s' = s1 \<and> e = Some err
                     | None \<Rightarrow> iterate_dirs handler fs ds s1 = Inr (s', e)"
    by blast
  have "only_adds s1 s'"
  proof (cases e1)
    case None
    with c have "iterate_dirs handler fs ds s1 = Inr (s', e)" by simp
    then show ?thesis using iterate_dirs_only_adds [of handler fs ds s1 s' e] step by blast
  next
    case (Some err)
    with c show ?thesis by (simp add: only_adds_refl)
  qed
  with h show ?thesis by blast
qed

lemma iterate_dirs_rest:
  assumes "iterate_dirs handler fs (ds1 @ ds2) s = Inr (s', e)"
    and "iterate_dirs handler fs ds1 s = Inr (s1, None)"
  shows "iterate_dirs handler fs ds2 s1 = Inr (s', e)"
  using assms by (simp add: iterate_dirs_append)

lemma issuer_handler_registers:
  assumes "pathToDescription lib fs conf manager (dir @ ''/description.xml'')
             (\<lambda>bts _. xml_Unmarshal_Issuer lib bts) zero_Issuer = Inr (True, None, issuer)"
    and "4 \<le> i_XMLVersion issuer"
    and "map_of (SchemeManagers conf) (i_SchemeManagerIdentifier issuer) = Some mgr"
  shows "issuer_handler lib fs manager dir conf
           = parseCredentialsFolder lib fs
               (conf\<lparr>Issuers := AList.update (i_Identifier issuer) (issuer\<lparr>i_Valid := m_Valid mgr\<rparr>)
                                  (Issuers conf)\<rparr>)
               manager (dir @ ''/Issues/'')"
  using assms by (simp add: issuer_handler_def zero_Issuer_def)

lemma credential_handler_registers:
  assumes "pathToDescription lib fs conf manager (dir @ ''/description.xml'')
             (\<lambda>bts _. xml_Unmarshal_CredentialType lib bts) zero_CredentialType
           = Inr (True, None, cred)"
    and "4 \<le> c_XMLVersion cred"
    and "map_of (SchemeManagers conf) (c_SchemeManagerIdentifier cred) = Some mgr"
  shows "\<exists>conf1. credential_handler lib fs manager dir conf = Inr (conf1, None)
           \<and> c_Identifier cred \<in> fst ` set (CredentialTypes conf1)"
  using assms
  by (simp add: credential_handler_def zero_CredentialType_def addReverseHash_def Let_def
      dom_update)

text \<open>
  C8. Let the manager's own description be read without error (\<open>steps\<close>), and let
  the walk over the issuer folders, started from the configuration \<open>start\<close> in which
  the manager is registered, stop with an error in the configuration \<open>conf2\<close>. Then
  \<open>ParseSchemeManagerFolder\<close> returns that error as a \<open>SchemeManagerError\<close> with
  the status \<open>ContentParsingError\<close>, the manager in the map has that status, and
  nothing that was registered on the way to the failure is missing from the
  configuration it returns:
  \<^item> whatever was registered when any number of issuer folders had been handled
    without error;
  \<^item> the issuer of the folder that is handled next, once its description is read and
    accepted, also when the walk over its credential types then fails;
  \<^item> whatever was registered when any number of credential folders of that issuer had
    been handled without error;
  \<^item> the credential type of the credential folder that is handled next, once its
    description is read and accepted.
\<close>

theorem content_failure_keeps_registrations:
  fixes lib fs conf dir manager m conf2 err
  defines "key \<equiv> Identifier manager"
  defines "start \<equiv> store_manager (store_manager conf key manager) key m"
  defines "failed \<equiv> m\<lparr>m_Status := SchemeManagerStatusContentParsingError\<rparr>"
  defines "conf' \<equiv> store_manager conf2 key failed"
  assumes steps: "manager_description_steps lib fs (store_manager conf key manager) dir manager
                    = Inr (m, None)"
    and fails: "parseIssuerFolders lib fs start m dir = Inr (conf2, Some err)"
  shows "ParseSchemeManagerFolder lib fs conf dir manager
           = Inr (conf', failed,
                  Some (SchemeManagerError (Identifier m) SchemeManagerStatusContentParsingError err))
       \<and> map_of (SchemeManagers conf') key = Some failed
       \<and> (\<forall>ds1 ds2 c1.
             filepath_Glob lib (dir @ ''/*'') = Inr (ds1 @ ds2)
             \<and> iterate_dirs (issuer_handler lib fs m) fs ds1 start = Inr (c1, None)
             \<longrightarrow> still_registered c1 conf'
               \<and> (\<forall>d ds3 issuer mgr.
                     ds2 = d # ds3 \<and> Stat fs d = Inr True \<and> \<not> HasSuffix d ''/.git''
                     \<and> pathToDescription lib fs c1 m (d @ ''/description.xml'')
                         (\<lambda>bts _. xml_Unmarshal_Issuer lib bts) zero_Issuer
                         = Inr (True, None, issuer)
                     \<and> 4 \<le> i_XMLVersion issuer
                     \<and> map_of (SchemeManagers c1) (i_SchemeManagerIdentifier issuer) = Some mgr
                     \<longrightarrow> i_Identifier issuer \<in> fst ` set (Issuers conf')
                       \<and> (\<forall>cs1 cs2 c2.
                             filepath_Glob lib ((d @ ''/Issues/'') @ ''/*'') = Inr (cs1 @ cs2)
                             \<and> iterate_dirs (credential_handler lib fs m) fs cs1
                                 (c1\<lparr>Issuers :=
                                      AList.update (i_Identifier issuer)
                                        (issuer\<lparr>i_Valid := m_Valid mgr\<rparr>) (Issuers c1)\<rparr>)
                                 = Inr (c2, None)
                             \<longrightarrow> still_registered c2 conf'
                               \<and> (\<forall>cd cs3 cred mgr2.
                                     cs2 = cd # cs3 \<and> Stat fs cd = Inr True
                                     \<and> \<not> HasSuffix cd ''/.git''
                                     \<and> pathToDescription lib fs c2 m (cd @ ''/description.xml'')
                                         (\<lambda>bts _. xml_Unmarshal_CredentialType lib bts)
                                         zero_CredentialType
                                         = Inr (True, None, cred)
                                     \<and> 4 \<le> c_XMLVersion cred
                                     \<and> map_of (SchemeManagers c2) (c_SchemeManagerIdentifier cred)
                                         = Some mgr2
                                     \<longrightarrow> c_Identifier cred \<in> fst ` set (CredentialTypes conf')))))"
proof -
  let ?IH = "issuer_handler lib fs m" and ?CH = "credential_handler lib fs m"
  have run: "ParseSchemeManagerFolder lib fs conf dir manager
           = Inr (conf', failed,
                  Some (SchemeManagerError (Identifier m) SchemeManagerStatusContentParsingError err))"
    using steps fails
    by (simp add: ParseSchemeManagerFolder_def Let_def key_def start_def failed_def conf'_def
        Identifier_def)
  have stored: "map_of (SchemeManagers conf') key = Some failed"
    by (simp add: conf'_def store_manager_def update_conv')
  have final: "still_registered c conf'" if "only_adds c conf2" for c
    using that by (simp add: only_adds_def still_registered_def conf'_def store_manager_def)
  have ih: "only_adds s s'" if "?IH d s = Inr (s', e)" for d s s' e
    using that by (rule issuer_handler_only_adds)
  have ch: "only_adds s s'" if "?CH d s = Inr (s', e)" for d s s' e
    using that by (rule credential_handler_only_adds)
  \<comment> \<open>the walk over the issuer folders, from the folders after a prefix on\<close>
  have rest: "iterate_dirs ?IH fs ds2 c1 = Inr (conf2, Some err)"
    if "filepath_Glob lib (dir @ ''/*'') = Inr (ds1 @ ds2)"
      and "iterate_dirs ?IH fs ds1 start = Inr (c1, None)"
    for ds1 ds2 c1
  proof -
    from fails that(1) have "iterate_dirs ?IH fs (ds1 @ ds2) start = Inr (conf2, Some err)"
      by (simp add: parseIssuerFolders_def iterateSubfolders_def)
    then show ?thesis using that(2) by (rule iterate_dirs_rest)
  qed
  have before: "still_registered c1 conf'"
    if "filepath_Glob lib (dir @ ''/*'') = Inr (ds1 @ ds2)"
      and "iterate_dirs ?IH fs ds1 start = Inr (c1, None)"
    for ds1 ds2 c1
  proof -
    have "only_adds c1 conf2" using ih rest [OF that] by (rule iterate_dirs_only_adds)
    then show ?thesis by (rule final)
  qed
  \<comment> \<open>the handler of the folder that comes next, once it has read its issuer\<close>
  have handler: "\<exists>cf e1.
        parseCredentialsFolder lib fs
          (c1\<lparr>Issuers := AList.update (i_Identifier issuer)
                            (issuer\<lparr>i_Valid := m_Valid mgr\<rparr>) (Issuers c1)\<rparr>)
          m (d @ ''/Issues/'') = Inr (cf, e1)
      \<and> only_adds cf conf2"
    if g: "filepath_Glob lib (dir @ ''/*'') = Inr (ds1 @ d # ds3)"
      and p: "iterate_dirs ?IH fs ds1 start = Inr (c1, None)"
      and d: "Stat fs d = Inr True" "\<not> HasSuffix d ''/.git''"
      and rd: "pathToDescription lib fs c1 m (d @ ''/description.xml'')
                 (\<lambda>bts _. xml_Unmarshal_Issuer lib bts) zero_Issuer
               = Inr (True, None, issuer)"
      and ver: "4 \<le> i_XMLVersion issuer"
      and mg: "map_of (SchemeManagers c1) (i_SchemeManagerIdentifier issuer) = Some mgr"
    for ds1 d ds3 c1 issuer mgr
  proof -
    have "\<exists>s1 e1. ?IH d c1 = Inr (s1, e1) \<and> only_adds s1 conf2"
      using ih d rest [OF g p] by (rule iterate_dirs_visit_only_adds)
    then show ?thesis unfolding issuer_handler_registers [OF rd ver mg] .
  qed
  have own: "i_Identifier issuer \<in> fst ` set (Issuers conf')"
    if g: "filepath_Glob lib (dir @ ''/*'') = Inr (ds1 @ d # ds3)"
      and p: "iterate_dirs ?IH fs ds1 start = Inr (c1, None)"
      and d: "Stat fs d = Inr True" "\<not> HasSuffix d ''/.git''"
      and rd: "pathToDescription lib fs c1 m (d @ ''/description.xml'')
                 (\<lambda>bts _. xml_Unmarshal_Issuer lib bts) zero_Issuer
               = Inr (True, None, issuer)"
      and ver: "4 \<le> i_XMLVersion issuer"
      and mg: "map_of (SchemeManagers c1) (i_SchemeManagerIdentifier issuer) = Some mgr"
    for ds1 d ds3 c1 issuer mgr
  proof -
    let ?c1i = "c1\<lparr>Issuers := AList.update (i_Identifier issuer)
                                 (issuer\<lparr>i_Valid := m_Valid mgr\<rparr>) (Issuers c1)\<rparr>"
    from handler [OF g p d rd ver mg] obtain cf e1 where
      pc: "parseCredentialsFolder lib fs ?c1i m (d @ ''/Issues/'') = Inr (cf, e1)"
      and cf: "only_adds cf conf2" by blast
    from pc have "only_adds ?c1i cf" by (rule parseCredentialsFolder_only_adds)
    then have "only_adds ?c1i conf2" using cf by (rule only_adds_trans)
    then have "still_registered ?c1i conf'" by (rule final)
    then show ?thesis by (auto simp: still_registered_def dom_update)
  qed
  \<comment> \<open>the walk over the credential folders of that issuer, after a prefix\<close>
  have crest: "\<exists>cf e1. iterate_dirs ?CH fs cs2 c2 = Inr (cf, e1) \<and> only_adds cf conf2"
    if g: "filepath_Glob lib (dir @ ''/*'') = Inr (ds1 @ d # ds3)"
      and p: "iterate_dirs ?IH fs ds1 start = Inr (c1, None)"
      and d: "Stat fs d = Inr True" "\<not> HasSuffix d ''/.git''"
      and rd: "pathToDescription lib fs c1 m (d @ ''/description.xml'')
                 (\<lambda>bts _. xml_Unmarshal_Issuer lib bts) zero_Issuer
               = Inr (True, None, issuer)"
      and ver: "4 \<le> i_XMLVersion issuer"
      and mg: "map_of (SchemeManagers c1) (i_SchemeManagerIdentifier issuer) = Some mgr"
      and cg: "filepath_Glob lib ((d @ ''/Issues/'') @ ''/*'') = Inr (cs1 @ cs2)"
      and cp: "iterate_dirs ?CH fs cs1
                 (c1\<lparr>Issuers := AList.update (i_Identifier issuer)
                                   (issuer\<lparr>i_Valid := m_Valid mgr\<rparr>) (Issuers c1)\<rparr>)
               = Inr (c2, None)"
    for ds1 d ds3 c1 issuer mgr cs1 cs2 c2
  proof -
    let ?c1i = "c1\<lparr>Issuers := AList.update (i_Identifier issuer)
                                 (issuer\<lparr>i_Valid := m_Valid mgr\<rparr>) (Issuers c1)\<rparr>"
    from handler [OF g p d rd ver mg] obtain cf e1 where
      pc: "parseCredentialsFolder lib fs ?c1i m (d @ ''/Issues/'') = Inr (cf, e1)"
      and cf: "only_adds cf conf2" by blast
    from pc cg have "iterate_dirs ?CH fs (cs1 @ cs2) ?c1i = Inr (cf, e1)"
      by (simp add: parseCredentialsFolder_def iterateSubfolders_def)
    then have "iterate_dirs ?CH fs cs2 c2 = Inr (cf, e1)"
      using cp by (rule iterate_dirs_rest)
    with cf show ?thesis by blast
  qed
  have cbefore: "still_registered c2 conf'"
    if g: "filepath_Glob lib (dir @ ''/*'') = Inr (ds1 @ d # ds3)"
      and p: "iterate_dirs ?IH fs ds1 start = Inr (c1, None)"
      and d: "Stat fs d = Inr True" "\<not> HasSuffix d ''/.git''"
      and rd: "pathToDescription lib fs c1 m (d @ ''/description.xml'')
                 (\<lambda>bts _. xml_Unmarshal_Issuer lib bts) zero_Issuer
               = Inr (True, None, issuer)"
      and ver: "4 \<le> i_XMLVersion issuer"
      and mg: "map_of (SchemeManagers c1) (i_SchemeManagerIdentifier issuer) = Some mgr"
      and cg: "filepath_Glob lib ((d @ ''/Issues/'') @ ''/*'') = Inr (cs1 @ cs2)"
      and cp: "iterate_dirs ?CH fs cs1
                 (c1\<lparr>Issuers := AList.update (i_Identifier issuer)
                                   (issuer\<lparr>i_Valid := m_Valid mgr\<rparr>) (Issuers c1)\<rparr>)
               = Inr (c2, None)"
    for ds1 d ds3 c1 issuer mgr cs1 cs2 c2
  proof -
    from crest [OF g p d rd ver mg cg cp] obtain cf e1 where
      r: "iterate_dirs ?CH fs cs2 c2 = Inr (cf, e1)" and cf: "only_adds cf conf2" by blast
    have "only_adds c2 cf" using ch r by (rule iterate_dirs_only_adds)
    then have "only_adds c2 conf2" using cf by (rule only_adds_trans)
    then show ?thesis by (rule final)
  qed
  have next_cred: "c_Identifier cred \<in> fst ` set (CredentialTypes conf')"
    if g: "filepath_Glob lib (dir @ ''/*'') = Inr (ds1 @ d # ds3)"
      and p: "iterate_dirs ?IH fs ds1 start = Inr (c1, None)"
      and d: "Stat fs d = Inr True" "\<not> HasSuffix d ''/.git''"
      and rd: "pathToDescription lib fs c1 m (d @ ''/description.xml'')
                 (\<lambda>bts _. xml_Unmarshal_Issuer lib bts) zero_Issuer
               = Inr (True, None, issuer)"
      and ver: "4 \<le> i_XMLVersion issuer"
      and mg: "map_of (SchemeManagers c1) (i_SchemeManagerIdentifier issuer) = Some mgr"
      and cg: "filepath_Glob lib ((d @ ''/Issues/'') @ ''/*'') = Inr (cs1 @ cd # cs3)"
      and cp: "iterate_dirs ?CH fs cs1
                 (c1\<lparr>Issuers := AList.update (i_Identifier issuer)
                                   (issuer\<lparr>i_Valid := m_Valid mgr\<rparr>) (Issuers c1)\<rparr>)
               = Inr (c2, None)"
      and c: "Stat fs cd = Inr True" "\<not> HasSuffix cd ''/.git''"
      and crd: "pathToDescription lib fs c2 m (cd @ ''/description.xml'')
                  (\<lambda>bts _. xml_Unmarshal_CredentialType lib bts) zero_CredentialType
                = Inr (True, None, cred)"
      and cver: "4 \<le> c_XMLVersion cred"
      and cmg: "map_of (SchemeManagers c2) (c_SchemeManagerIdentifier cred) = Some mgr2"
    for ds1 d ds3 c1 issuer mgr cs1 cd cs3 c2 cred mgr2
  proof -
    from crest [OF g p d rd ver mg cg cp] obtain cf e1 where
      r: "iterate_dirs ?CH fs (cd # cs3) c2 = Inr (cf, e1)" and cf: "only_adds cf conf2" by blast
    from credential_handler_registers [OF crd cver cmg] obtain c3 where
      h: "?CH cd c2 = Inr (c3, None)"
      and k: "c_Identifier cred \<in> fst ` set (CredentialTypes c3)" by blast
    have "\<exists>s1 e1. ?CH cd c2 = Inr (s1, e1) \<and> only_adds s1 cf"
      using ch c r by (rule iterate_dirs_visit_only_adds)
    with h have "only_adds c3 cf" by simp
    then have "only_adds c3 conf2" using cf by (rule only_adds_trans)
    then have "still_registered c3 conf'" by (rule final)
    with k show ?thesis by (auto simp: still_registered_def)
  qed
  show ?thesis
    apply (intro conjI allI impI; (elim conjE)?)
    subgoal by (rule run)
    subgoal by (rule stored)
    subgoal premises q using q before by blast
    subgoal premises q using q own by blast
    subgoal premises q using q cbefore by blast
    subgoal premises q using q next_cred by blast
    done
qed

lemma example_content_steps:
  "manager_description_steps example_content_lib example_content_fs
     (store_manager example_conf (Identifier (NewSchemeManager ''m'')) (NewSchemeManager ''m''))
     ''conf/m'' (NewSchemeManager ''m'')
   = Inr (example_content_manager, None)"
  by code_simp

lemma example_content_fails:
  "(case parseIssuerFolders example_content_lib example_content_fs example_content_start
           example_content_manager ''conf/m'' of
      Inr (conf2, Some err) \<Rightarrow> err = Error ''Unsupported credential type description''
    | _ \<Rightarrow> False)"
  by code_simp

lemma example_content_read:
  "pathToDescription example_content_lib example_content_fs example_content_start
     example_content_manager (''conf/m/a'' @ ''/description.xml'')
     (\<lambda>bts _. xml_Unmarshal_Issuer example_content_lib bts) zero_Issuer
   = Inr (True, None, example_content_issuer)"
  by code_simp

lemma example_content_first_credential:
  "(case iterate_dirs (credential_handler example_content_lib example_content_fs
                         example_content_manager) example_content_fs [''conf/m/a/Issues/c'']
           (example_content_start\<lparr>Issuers :=
              AList.update (i_Identifier example_content_issuer)
                (example_content_issuer\<lparr>i_Valid := m_Valid example_content_manager\<rparr>)
                (Issuers example_content_start)\<rparr>) of
      Inr (c2, None) \<Rightarrow> map_of (CredentialTypes c2) (NewCredentialTypeIdentifier ''m/a/c'') \<noteq> None
    | _ \<Rightarrow> False)"
  by code_simp

lemma ok_resultE:
  "(case r of Inr (c, None) \<Rightarrow> P c | _ \<Rightarrow> False) \<Longrightarrow> \<exists>c. r = Inr (c, None) \<and> P c"
  by (auto split: sum.splits option.splits prod.splits)

lemma failed_resultE:
  "(case r of Inr (c, Some e) \<Rightarrow> P c e | _ \<Rightarrow> False) \<Longrightarrow> \<exists>c e. r = Inr (c, Some e) \<and> P c e"
  by (auto split: sum.splits option.splits prod.splits)

theorem content_failure_keeps_registrations_witness:
  "\<exists>conf' m'.
     ParseSchemeManagerFolder example_content_lib example_content_fs example_conf ''conf/m''
       (NewSchemeManager ''m'')
     = Inr (conf', m',
            Some (SchemeManagerError (NewSchemeManagerIdentifier ''m'')
                    SchemeManagerStatusContentParsingError
                    (Error ''Unsupported credential type description'')))
   \<and> m_Status m' = SchemeManagerStatusContentParsingError
   \<and> map_of (SchemeManagers conf') (NewSchemeManagerIdentifier ''m'') = Some m'
   \<and> NewIssuerIdentifier ''m/a'' \<in> fst ` set (Issuers conf')
   \<and> NewCredentialTypeIdentifier ''m/a/c'' \<in> fst ` set (CredentialTypes conf')"
proof -
  let ?key = "Identifier (NewSchemeManager ''m'')"
  let ?failed = "example_content_manager\<lparr>m_Status := SchemeManagerStatusContentParsingError\<rparr>"
  let ?c1i = "example_content_start\<lparr>Issuers :=
              AList.update (i_Identifier example_content_issuer)
                (example_content_issuer\<lparr>i_Valid := m_Valid example_content_manager\<rparr>)
                (Issuers example_content_start)\<rparr>"
  obtain conf2 where
    f: "parseIssuerFolders example_content_lib example_content_fs example_content_start
          example_content_manager ''conf/m''
        = Inr (conf2, Some (Error ''Unsupported credential type description''))"
    using failed_resultE [OF example_content_fails] by blast
  let ?conf' = "store_manager conf2 ?key ?failed"
  note t = content_failure_keeps_registrations
             [OF example_content_steps f [unfolded example_content_start_def]]
  have id: "Identifier example_content_manager = NewSchemeManagerIdentifier ''m''"
    "?key = NewSchemeManagerIdentifier ''m''"
    by (simp_all add: Identifier_def example_content_manager_def NewSchemeManager_def)
  from t have run: "ParseSchemeManagerFolder example_content_lib example_content_fs example_conf
       ''conf/m'' (NewSchemeManager ''m'')
     = Inr (?conf', ?failed,
            Some (SchemeManagerError (Identifier example_content_manager)
                    SchemeManagerStatusContentParsingError
                    (Error ''Unsupported credential type description'')))"
    by (rule conjunct1)
  from t have stored: "map_of (SchemeManagers ?conf') ?key = Some ?failed"
    by (rule conjunct1 [OF conjunct2])
  have g: "filepath_Glob example_content_lib (''conf/m'' @ ''/*'')
             = Inr ([] @ [''conf/m/a'', ''conf/m/description.xml''])"
    by (simp add: example_content_lib_def example_parse_lib_def)
  have p: "iterate_dirs (issuer_handler example_content_lib example_content_fs
                           example_content_manager) example_content_fs []
             example_content_start = Inr (example_content_start, None)"
    by simp
  have d: "Stat example_content_fs ''conf/m/a'' = Inr True" "\<not> HasSuffix ''conf/m/a'' ''/.git''"
    by (simp_all add: Stat_def example_content_fs_def HasSuffix_def)
  have v: "4 \<le> i_XMLVersion example_content_issuer"
    "map_of (SchemeManagers example_content_start) (i_SchemeManagerIdentifier example_content_issuer)
       = Some example_content_manager"
    by (simp_all add: example_content_issuer_def example_content_start_def store_manager_def
        Identifier_def NewSchemeManager_def update_conv')
  from t [THEN conjunct2, THEN conjunct2, rule_format, folded example_content_start_def,
          of "[]" "[''conf/m/a'', ''conf/m/description.xml'']" example_content_start]
    g p
  have nxt: "\<forall>d ds3 issuer mgr.
       [''conf/m/a'', ''conf/m/description.xml''] = d # ds3 \<and> Stat example_content_fs d = Inr True
       \<and> \<not> HasSuffix d ''/.git''
       \<and> pathToDescription example_content_lib example_content_fs example_content_start
            example_content_manager (d @ ''/description.xml'')
            (\<lambda>bts _. xml_Unmarshal_Issuer example_content_lib bts) zero_Issuer
           = Inr (True, None, issuer)
       \<and> 4 \<le> i_XMLVersion issuer
       \<and> map_of (SchemeManagers example_content_start) (i_SchemeManagerIdentifier issuer) = Some mgr
       \<longrightarrow> i_Identifier issuer \<in> fst ` set (Issuers ?conf')
         \<and> (\<forall>cs1 cs2 c2.
               filepath_Glob example_content_lib ((d @ ''/Issues/'') @ ''/*'') = Inr (cs1 @ cs2)
               \<and> iterate_dirs (credential_handler example_content_lib example_content_fs
                                 example_content_manager) example_content_fs cs1
                   (example_content_start\<lparr>Issuers :=
                        AList.update (i_Identifier issuer)
                          (issuer\<lparr>i_Valid := m_Valid mgr\<rparr>) (Issuers example_content_start)\<rparr>)
                   = Inr (c2, None)
               \<longrightarrow> still_registered c2 ?conf')"
    by blast
  from nxt [rule_format, of "''conf/m/a''" "[''conf/m/description.xml'']"
      example_content_issuer example_content_manager] d example_content_read v
  have own: "i_Identifier example_content_issuer \<in> fst ` set (Issuers ?conf')"
    and creds: "\<forall>cs1 cs2 c2.
               filepath_Glob example_content_lib ((''conf/m/a'' @ ''/Issues/'') @ ''/*'')
                 = Inr (cs1 @ cs2)
               \<and> iterate_dirs (credential_handler example_content_lib example_content_fs
                                 example_content_manager) example_content_fs cs1 ?c1i
                   = Inr (c2, None)
               \<longrightarrow> still_registered c2 ?conf'"
    by blast+
  obtain c2 where
    c2: "iterate_dirs (credential_handler example_content_lib example_content_fs
                         example_content_manager) example_content_fs [''conf/m/a/Issues/c''] ?c1i
           = Inr (c2, None)"
    and k: "map_of (CredentialTypes c2) (NewCredentialTypeIdentifier ''m/a/c'') \<noteq> None"
    using ok_resultE [OF example_content_first_credential] by blast
  have cg: "filepath_Glob example_content_lib ((''conf/m/a'' @ ''/Issues/'') @ ''/*'')
              = Inr ([''conf/m/a/Issues/c''] @ [''conf/m/a/Issues/d''])"
    by (simp add: example_content_lib_def example_parse_lib_def)
  from creds cg c2 have "still_registered c2 ?conf'" by blast
  moreover from k have "NewCredentialTypeIdentifier ''m/a/c'' \<in> fst ` set (CredentialTypes c2)"
    by (simp add: map_of_eq_None_iff)
  ultimately have cred: "NewCredentialTypeIdentifier ''m/a/c'' \<in> fst ` set (CredentialTypes ?conf')"
    by (auto simp: still_registered_def)
  have "m_Status ?failed = SchemeManagerStatusContentParsingError" by simp
  moreover from own have "NewIssuerIdentifier ''m/a'' \<in> fst ` set (Issuers ?conf')"
    by (simp add: example_content_issuer_def)
  ultimately show ?thesis using run stored cred unfolding id by blast
qed

section \<open>A manager whose signature does not verify\<close>

















section \<open>Pruning\<close>











section \<open>A manager with a bad signature, from parsing to pruning\<close>









end
